theory Spec2Isabelle
  imports Complex_Main
begin

section \<open>Python values and errors\<close>

text \<open>
  The model follows \<^verbatim>\<open>models/visformer2.py\<close>. Python integers are \<^typ>\<open>int\<close>, Python floats
  are read as \<^typ>\<open>real\<close>, a raised exception is the left injection of a sum.
\<close>

datatype error = AssertionError | AttributeError | IndexError | ValueError | ZeroDivisionError

definition ebind :: "error + 'a \<Rightarrow> ('a \<Rightarrow> error + 'b) \<Rightarrow> error + 'b" where
  "ebind m f = (case m of Inl e \<Rightarrow> Inl e | Inr x \<Rightarrow> f x)"

fun mapE :: "('a \<Rightarrow> error + 'b) \<Rightarrow> 'a list \<Rightarrow> error + 'b list" where
  "mapE f [] = Inr []"
| "mapE f (x # xs) = ebind (f x) (\<lambda>y. ebind (mapE f xs) (\<lambda>ys. Inr (y # ys)))"

fun foldE :: "('a \<Rightarrow> 'b \<Rightarrow> error + 'b) \<Rightarrow> 'a list \<Rightarrow> 'b \<Rightarrow> error + 'b" where
  "foldE f [] s = Inr s"
| "foldE f (x # xs) s = ebind (f x s) (foldE f xs)"

text \<open>Python subscription \<^verbatim>\<open>xs[i]\<close>: a negative index counts from the end.\<close>

definition py_get :: "'a list \<Rightarrow> int \<Rightarrow> error + 'a" where
  "py_get xs i =
     (if 0 \<le> i \<and> i < int (length xs) then Inr (xs ! nat i)
      else if i < 0 \<and> - int (length xs) \<le> i then Inr (xs ! nat (int (length xs) + i))
      else Inl IndexError)"

text \<open>
  \<^verbatim>\<open>range(a, b)\<close>, \<^verbatim>\<open>int(x)\<close> of a float (truncation towards zero) and \<^verbatim>\<open>a or b\<close> on an
  optional integer (\<^verbatim>\<open>None\<close> and \<open>0\<close> are falsy).
\<close>

definition py_range :: "int \<Rightarrow> int \<Rightarrow> int list" where
  "py_range a b = [a..b - 1]"

definition py_int :: "real \<Rightarrow> int" where
  "py_int x = (if 0 \<le> x then \<lfloor>x\<rfloor> else \<lceil>x\<rceil>)"

definition py_or :: "int option \<Rightarrow> int \<Rightarrow> int" where
  "py_or a b = (case a of None \<Rightarrow> b | Some v \<Rightarrow> if v = 0 then b else v)"

text \<open>
  Modelled from the spec: \<^verbatim>\<open>to_2tuple = _ntuple(2)\<close> comes from \<^verbatim>\<open>.utils\<close>, which is not
  among the sources. The spec's WindowGeometry is a pair (height, width); a scalar
  window size stands for the square window.
\<close>

definition to_2tuple :: "int \<Rightarrow> int \<times> int" where
  "to_2tuple x = (x, x)"

section \<open>Relative position index (WindowAttention.__init__, lines 139-149)\<close>

text \<open>
  \<^verbatim>\<open>ms.numpy.arange(n)\<close> is \<open>0, \<dots>, n-1\<close>. \<^verbatim>\<open>ops.meshgrid\<close> is called with its default
  indexing \<^verbatim>\<open>'xy'\<close>: for inputs of lengths \<open>M\<close> and \<open>N\<close> both outputs have shape \<open>(N, M)\<close>,
  the first repeating the first input along every row, the second constant along each
  row. \<^verbatim>\<open>ops.flatten\<close> keeps axis 0 of the stacked pair and flattens the rest.
\<close>

definition arange :: "int \<Rightarrow> int list" where
  "arange n = map int [0..<nat n]"

definition meshgrid :: "int list \<Rightarrow> int list \<Rightarrow> int list list \<times> int list list" where
  "meshgrid a b = (map (\<lambda>_. a) b, map (\<lambda>y. map (\<lambda>_. y) a) b)"

definition flatten :: "int list list \<Rightarrow> int list" where
  "flatten g = concat g"

text \<open>\<^verbatim>\<open>v[:, None] - v[None, :]\<close> for one coordinate axis.\<close>

definition outer_sub :: "int list \<Rightarrow> int list \<Rightarrow> int list list" where
  "outer_sub xs ys = map (\<lambda>a. map (\<lambda>b. a - b) ys) xs"

definition coords_flatten :: "int \<times> int \<Rightarrow> int list \<times> int list" where
  "coords_flatten window_size =
     (let coords_h = arange (fst window_size);
          coords_w = arange (snd window_size);
          coords = meshgrid coords_h coords_w
      in (flatten (fst coords), flatten (snd coords)))"

definition relative_position_index :: "int \<times> int \<Rightarrow> int list list" where
  "relative_position_index window_size =
     (let cf = coords_flatten window_size;
          rc0 = outer_sub (fst cf) (fst cf);
          rc1 = outer_sub (snd cf) (snd cf);
          rc0 = map (map (\<lambda>v. v + (fst window_size - 1))) rc0;
          rc1 = map (map (\<lambda>v. v + (snd window_size - 1))) rc1;
          rc0 = map (map (\<lambda>v. v * (2 * snd window_size - 1))) rc0
      in map2 (map2 (+)) rc0 rc1)"

text \<open>The coordinate \<open>(y, x)\<close> that the flattened grid gives position \<open>p\<close>.\<close>

definition coord :: "int \<times> int \<Rightarrow> nat \<Rightarrow> int \<times> int" where
  "coord window_size p =
     (fst (coords_flatten window_size) ! p, snd (coords_flatten window_size) ! p)"

section \<open>Drop-path schedule (Visformer.__init__, line 298)\<close>

text \<open>
  \<^verbatim>\<open>np.linspace(start, stop, num)\<close> with its default \<^verbatim>\<open>endpoint=True\<close>: a negative \<open>num\<close>
  is refused; otherwise \<open>arange(num) * step + start\<close> with \<open>step = (stop - start) / (num - 1)\<close>
  (the samples are multiplied by \<open>stop - start\<close> itself when \<open>num - 1\<close> is not positive),
  and the last sample is overwritten by \<open>stop\<close> when \<open>num > 1\<close>.
\<close>

definition linspace :: "real \<Rightarrow> real \<Rightarrow> int \<Rightarrow> error + real list" where
  "linspace start stop num =
     (if num < 0 then Inl ValueError
      else
        let dv = num - 1;
            delta = stop - start;
            y = map real_of_int (arange num);
            y = (if 0 < dv then map (\<lambda>v. v * (delta / real_of_int dv)) y
                 else map (\<lambda>v. v * delta) y);
            y = map (\<lambda>v. v + start) y
        in Inr (if 1 < num then y[nat (num - 1) := stop] else y))"

definition drop_path_schedule :: "real \<Rightarrow> int list \<Rightarrow> error + real list" where
  "drop_path_schedule drop_path_rate depth = linspace 0 drop_path_rate (sum_list depth)"

section \<open>Library layers at their interface\<close>

text \<open>
  The MindSpore cells are external. A constructed cell is a record of its configuration
  and of the name under which the enclosing model holds it (its parameters are opaque
  learnable state identified by that name); the constructors make the argument checks
  of the library: channel counts, kernel, stride and group positive, padding not
  negative, both channel counts divisible by the group, a keep probability in \<open>(0, 1]\<close>.
\<close>

datatype key = Attr string | Idx int

type_synonym name = "key list"

record parameter =
  p_name :: name
  p_shape :: "int list"

record conv2d_layer =
  conv_name :: name
  conv_in :: int
  conv_out :: int
  conv_kernel :: int
  conv_stride :: int
  conv_padding :: int
  conv_group :: int
  conv_has_bias :: bool

record norm_layer =
  norm_name :: name
  norm_features :: int

record dense_layer =
  dense_name :: name
  dense_in :: int
  dense_out :: int

datatype drop_path_layer = DropPath real | Identity

definition zeros :: "name \<Rightarrow> int list \<Rightarrow> error + parameter" where
  "zeros nm shp =
     (if list_all (\<lambda>d. 0 \<le> d) shp then Inr \<lparr>p_name = nm, p_shape = shp\<rparr>
      else Inl ValueError)"

definition Conv2d ::
  "name \<Rightarrow> int \<Rightarrow> int \<Rightarrow> int \<Rightarrow> int \<Rightarrow> int \<Rightarrow> int \<Rightarrow> bool \<Rightarrow> error + conv2d_layer" where
  "Conv2d nm cin cout ksize strd pad grp bias =
     (if 0 < cin \<and> 0 < cout \<and> 0 < ksize \<and> 0 < strd \<and> 0 \<le> pad \<and> 0 < grp
         \<and> cin mod grp = 0 \<and> cout mod grp = 0
      then Inr \<lparr>conv_name = nm, conv_in = cin, conv_out = cout, conv_kernel = ksize,
                conv_stride = strd, conv_padding = pad, conv_group = grp,
                conv_has_bias = bias\<rparr>
      else Inl ValueError)"

definition BatchNorm :: "name \<Rightarrow> int \<Rightarrow> error + norm_layer" where
  "BatchNorm nm dimn =
     (if 0 < dimn then Inr \<lparr>norm_name = nm @ [Attr ''bn''], norm_features = dimn\<rparr>
      else Inl ValueError)"

definition Dense :: "name \<Rightarrow> int \<Rightarrow> int \<Rightarrow> error + dense_layer" where
  "Dense nm cin cout =
     (if 0 < cin \<and> 0 < cout then Inr \<lparr>dense_name = nm, dense_in = cin, dense_out = cout\<rparr>
      else Inl ValueError)"

definition Dropout :: "real \<Rightarrow> error + real" where
  "Dropout keep_prob = (if 0 < keep_prob \<and> keep_prob \<le> 1 then Inr keep_prob else Inl ValueError)"

section \<open>Mlp.__init__ (lines 66-92)\<close>

record mlp =
  mlp_in_features :: int
  mlp_out_features :: int
  mlp_spatial_conv :: bool
  mlp_hidden_features :: int
  mlp_group :: int
  mlp_drop :: real
  mlp_conv1 :: conv2d_layer
  mlp_conv2 :: "conv2d_layer option"
  mlp_conv3 :: conv2d_layer

definition Mlp_hidden :: "int \<Rightarrow> int option \<Rightarrow> int \<Rightarrow> bool \<Rightarrow> int" where
  "Mlp_hidden in_features hidden_features grp spatial =
     (let hidden_features = py_or hidden_features in_features
      in if spatial then (if grp < 2 then in_features * 5 div 6 else in_features * 2)
         else hidden_features)"

definition Mlp_init ::
  "name \<Rightarrow> int \<Rightarrow> int option \<Rightarrow> int option \<Rightarrow> real \<Rightarrow> int \<Rightarrow> bool \<Rightarrow> error + mlp" where
  "Mlp_init nm in_features hidden_features out_features drp grp spatial =
     (let out_features = py_or out_features in_features;
          hidden_features = Mlp_hidden in_features hidden_features grp spatial
      in ebind (Dropout (1 - drp)) (\<lambda>dr.
         ebind (Conv2d (nm @ [Attr ''conv1'']) in_features hidden_features 1 1 0 1 False) (\<lambda>c1.
         ebind (if spatial
                then ebind (Conv2d (nm @ [Attr ''conv2'']) hidden_features hidden_features
                              3 1 1 grp False) (\<lambda>c. Inr (Some c))
                else Inr None) (\<lambda>c2.
         ebind (Conv2d (nm @ [Attr ''conv3'']) hidden_features out_features 1 1 0 1 False) (\<lambda>c3.
         Inr \<lparr>mlp_in_features = in_features, mlp_out_features = out_features,
              mlp_spatial_conv = spatial, mlp_hidden_features = hidden_features,
              mlp_group = grp, mlp_drop = dr, mlp_conv1 = c1, mlp_conv2 = c2,
              mlp_conv3 = c3\<rparr>)))))"

section \<open>WindowAttention.__init__ (lines 121-160)\<close>

record window_attention =
  wa_dim :: int
  wa_window_size :: "int \<times> int"
  wa_num_heads :: int
  wa_head_dim :: int
  wa_relative_postion_bias_table :: parameter
  wa_relative_position_index :: "int list list"
  wa_scale :: real
  wa_qkv :: conv2d_layer
  wa_attn_drop :: real
  wa_proj :: conv2d_layer
  wa_proj_drop :: real

text \<open>
  \<^verbatim>\<open>self.head_dim ** qk_scale_factor\<close>, an integer raised to a float. Zero to a negative
  power raises. For a negative head dimension Python's result may be complex; the
  constructor then stops at the next line, whose channel count is negative, so that value
  never leaves the constructor.
\<close>

definition qk_scale_factor :: "real option \<Rightarrow> real" where
  "qk_scale_factor qk_scale = (case qk_scale of None \<Rightarrow> - 0.25 | Some s \<Rightarrow> s)"

definition py_pow :: "int \<Rightarrow> real \<Rightarrow> error + real" where
  "py_pow b e =
     (if b = 0 then (if e < 0 then Inl ZeroDivisionError else Inr (if e = 0 then 1 else 0))
      else Inr (real_of_int b powr e))"

definition WindowAttention_init ::
  "name \<Rightarrow> int \<Rightarrow> int \<times> int \<Rightarrow> int \<Rightarrow> real \<Rightarrow> bool \<Rightarrow> real option \<Rightarrow> real \<Rightarrow> real
   \<Rightarrow> error + window_attention" where
  "WindowAttention_init nm dimn window_size num_heads head_dim_ratio qkv_bias qk_scale
       attn_drop proj_drop =
     (if num_heads = 0 then Inl ZeroDivisionError
      else
        let head_dim = py_int (real_of_int (dimn div num_heads) * head_dim_ratio);
            bias_table_shape = [(2 * fst window_size - 1) * (2 * snd window_size - 1), num_heads]
        in ebind (zeros (nm @ [Attr ''relative_postion_bias_table'']) bias_table_shape) (\<lambda>tbl.
           ebind (py_pow head_dim (qk_scale_factor qk_scale)) (\<lambda>scl.
           ebind (Conv2d (nm @ [Attr ''qkv'']) dimn (head_dim * num_heads * 3) 1 1 0 1 qkv_bias)
             (\<lambda>qkv.
           ebind (Dropout (1 - attn_drop)) (\<lambda>ad.
           ebind (Conv2d (nm @ [Attr ''proj'']) (head_dim * num_heads) dimn 1 1 0 1 False) (\<lambda>proj.
           ebind (Dropout (1 - proj_drop)) (\<lambda>pd.
           Inr \<lparr>wa_dim = dimn, wa_window_size = window_size, wa_num_heads = num_heads,
                wa_head_dim = head_dim, wa_relative_postion_bias_table = tbl,
                wa_relative_position_index = relative_position_index window_size,
                wa_scale = scl, wa_qkv = qkv, wa_attn_drop = ad, wa_proj = proj,
                wa_proj_drop = pd\<rparr>)))))))"

section \<open>Block.__init__ (lines 186-224)\<close>

record block =
  blk_attn_disabled :: bool
  blk_spatial_conv :: bool
  blk_input_resolution :: "int \<times> int"
  blk_window_size :: int
  blk_shift_size :: int
  blk_drop_path :: drop_path_layer
  blk_norm1 :: "norm_layer option"
  blk_attn :: "window_attention option"
  blk_norm2 :: norm_layer
  blk_mlp :: mlp

text \<open>The window and the shift after the clamp of lines 211-213.\<close>

definition Block_window :: "int \<times> int \<Rightarrow> int \<Rightarrow> int \<Rightarrow> int \<times> int" where
  "Block_window input_resolution window_size shift_size =
     (if min (fst input_resolution) (snd input_resolution) \<le> window_size
      then (min (fst input_resolution) (snd input_resolution), 0)
      else (window_size, shift_size))"

definition Block_init ::
  "name \<Rightarrow> int \<Rightarrow> int \<times> int \<Rightarrow> int \<Rightarrow> int \<Rightarrow> int \<Rightarrow> real \<Rightarrow> real \<Rightarrow> bool \<Rightarrow> real option
   \<Rightarrow> real \<Rightarrow> real \<Rightarrow> real \<Rightarrow> int \<Rightarrow> bool \<Rightarrow> bool \<Rightarrow> error + block" where
  "Block_init nm dimn input_resolution num_heads window_size shift_size head_dim_ratio
       mlp_ratio qkv_bias qk_scale drp attn_drop drop_path grp attn_disabled spatial =
     (let ws = Block_window input_resolution window_size shift_size;
          window_size = fst ws;
          shift_size = snd ws;
          dp = (if 0 < drop_path then DropPath drop_path else Identity)
      in ebind (if \<not> attn_disabled
                then ebind (BatchNorm (nm @ [Attr ''norm1'']) dimn) (\<lambda>n1.
                     ebind (WindowAttention_init (nm @ [Attr ''attn'']) dimn
                              (to_2tuple window_size) num_heads head_dim_ratio qkv_bias
                              qk_scale attn_drop drp) (\<lambda>a.
                     Inr (Some n1, Some a)))
                else Inr (None, None)) (\<lambda>na.
         ebind (BatchNorm (nm @ [Attr ''norm2'']) dimn) (\<lambda>n2.
         ebind (Mlp_init (nm @ [Attr ''mlp'']) dimn
                  (Some (py_int (real_of_int dimn * mlp_ratio))) None drp grp spatial) (\<lambda>ml.
         Inr \<lparr>blk_attn_disabled = attn_disabled, blk_spatial_conv = spatial,
              blk_input_resolution = input_resolution, blk_window_size = window_size,
              blk_shift_size = shift_size, blk_drop_path = dp, blk_norm1 = fst na,
              blk_attn = snd na, blk_norm2 = n2, blk_mlp = ml\<rparr>))))"

section \<open>PatchEmbed.__init__ (lines 235-253)\<close>

record patch_embed =
  pe_img_size :: "int \<times> int"
  pe_patch_size :: "int \<times> int"
  pe_num_patches :: int
  pe_proj :: conv2d_layer
  pe_norm :: "norm_layer option"

definition PatchEmbed_init ::
  "name \<Rightarrow> int \<Rightarrow> int \<Rightarrow> int \<Rightarrow> int \<Rightarrow> bool \<Rightarrow> error + patch_embed" where
  "PatchEmbed_init nm img_sz patch_sz in_chans dimn with_norm =
     (let img_sz = to_2tuple img_sz;
          patch_sz = to_2tuple patch_sz
      in if snd patch_sz = 0 \<or> fst patch_sz = 0 then Inl ZeroDivisionError
         else
           let num_patches = (snd img_sz div snd patch_sz) * (fst img_sz div fst patch_sz)
           in ebind (Conv2d (nm @ [Attr ''proj'']) in_chans dimn (fst patch_sz) (fst patch_sz)
                       0 1 True) (\<lambda>proj.
              ebind (if with_norm
                     then ebind (BatchNorm (nm @ [Attr ''norm'']) dimn) (\<lambda>n. Inr (Some n))
                     else Inr None) (\<lambda>nrm.
              Inr \<lparr>pe_img_size = img_sz, pe_patch_size = patch_sz,
                   pe_num_patches = num_patches, pe_proj = proj, pe_norm = nrm\<rparr>)))"

section \<open>Visformer.__init__ (lines 264-387)\<close>

text \<open>
  The arguments of the constructor. \<open>depth\<close> is \<open>None\<close> for a value that is neither a list
  nor a tuple (the default is Python's \<^verbatim>\<open>None\<close>); \<open>num_heads\<close> is a scalar or a sequence.
  \<open>norm_layer\<close> is taken at its default, the \<^verbatim>\<open>BatchNorm\<close> cell of this file, and
  \<open>embedding_norm\<close> says whether a norm layer was passed for the patch embeddings.
\<close>

datatype heads_arg = HeadsScalar int | HeadsSeq "int list"

record config =
  img_size :: int
  init_channels :: int
  num_classes :: int
  embed_dim :: int
  depth :: "int list option"
  num_heads :: heads_arg
  mlp_ratio :: real
  qkv_bias :: bool
  qk_scale :: "real option"
  drop_rate :: real
  attn_drop_rate :: real
  drop_path_rate :: real
  attn_stage :: string
  pos_embed :: bool
  spatial_conv :: string
  group :: int
  pool :: bool
  conv_init :: bool
  embedding_norm :: bool

record visformer =
  v_num_classes :: int
  v_embed_dim :: int
  v_init_channels :: int
  v_img_size :: int
  v_pool :: bool
  v_conv_init :: bool
  v_depth :: "int list"
  v_pos_embed :: bool
  v_stem_conv :: conv2d_layer
  v_stem_bn :: norm_layer
  v_pos_drop :: real
  v_patch_embed0 :: patch_embed
  v_pos_embed0 :: "parameter option"
  v_stage0 :: "block list"
  v_patch_embed1 :: patch_embed
  v_pos_embed1 :: "parameter option"
  v_stage1 :: "block list"
  v_patch_embed2 :: patch_embed
  v_pos_embed2 :: "parameter option"
  v_stage2 :: "block list"
  v_patch_embed3 :: patch_embed
  v_pos_embed3 :: "parameter option"
  v_stage3 :: "block list"
  v_norm :: norm_layer
  v_head :: dense_layer

definition broadcast_heads :: "heads_arg \<Rightarrow> int list" where
  "broadcast_heads nh = (case nh of HeadsScalar h \<Rightarrow> replicate 4 h | HeadsSeq hs \<Rightarrow> hs)"

text \<open>
  One element of a stage's list comprehension: block \<open>i\<close> of stage \<open>k\<close>. The keyword
  arguments are evaluated in the order written: \<^verbatim>\<open>num_heads[k]\<close>, \<^verbatim>\<open>dpr[i]\<close>,
  \<^verbatim>\<open>attn_stage[k] == '0'\<close>, \<^verbatim>\<open>spatial_conv[k] == '1'\<close>; then the block is built.
\<close>

definition stage_block ::
  "config \<Rightarrow> int list \<Rightarrow> real list \<Rightarrow> int \<Rightarrow> int \<Rightarrow> int \<Rightarrow> int \<Rightarrow> int \<Rightarrow>
   real \<Rightarrow> int \<Rightarrow> int \<Rightarrow> error + block" where
  "stage_block c heads dpr k dimn res window shift ratio lo i =
     ebind (py_get heads k) (\<lambda>nh.
     ebind (py_get dpr i) (\<lambda>dp.
     ebind (py_get (attn_stage c) k) (\<lambda>a.
     ebind (py_get (spatial_conv c) k) (\<lambda>s.
     Block_init [Attr ''stage'', Idx k, Idx (i - lo)] dimn (res, res) nh window
       (if i mod 2 = 0 then 0 else shift) ratio (mlp_ratio c) (qkv_bias c) (qk_scale c)
       (drop_rate c) (attn_drop_rate c) dp (group c) (a = CHR ''0'') (s = CHR ''1'')))))"

definition build_stage ::
  "config \<Rightarrow> int list \<Rightarrow> real list \<Rightarrow> int list \<Rightarrow> int \<Rightarrow> int \<Rightarrow> int \<Rightarrow> int \<Rightarrow> int \<Rightarrow>
   real \<Rightarrow> error + block list" where
  "build_stage c heads dpr ds k dimn res window shift ratio =
     (let lo = sum_list (take (nat k) ds); hi = sum_list (take (nat k + 1) ds)
      in mapE (stage_block c heads dpr k dimn res window shift ratio lo) (py_range lo hi))"

definition pos_embed_init :: "bool \<Rightarrow> name \<Rightarrow> int list \<Rightarrow> error + parameter option" where
  "pos_embed_init enabled nm shp =
     (if enabled then ebind (zeros nm shp) (\<lambda>p. Inr (Some p)) else Inr None)"

definition Visformer_init :: "config \<Rightarrow> error + visformer" where
  "Visformer_init c =
     (case depth c of
        None \<Rightarrow> Inl AssertionError
      | Some ds \<Rightarrow>
          if length ds \<noteq> 4 then Inl AssertionError
          else
            let heads = broadcast_heads (num_heads c);
                C = embed_dim c;
                s1 = img_size c div 2;
                s2 = s1 div 2;
                s3 = s2 div 2;
                s4 = s3 div 2;
                s5 = s4 div 2
            in ebind (drop_path_schedule (drop_path_rate c) ds) (\<lambda>dpr.
               ebind (Conv2d [Attr ''stem'', Idx 0] 3 (init_channels c) 7 2 3 1 False) (\<lambda>stem_conv.
               ebind (BatchNorm [Attr ''stem'', Idx 1] (init_channels c)) (\<lambda>stem_bn.
               ebind (Dropout (1 - drop_rate c)) (\<lambda>pos_drop.
               ebind (PatchEmbed_init [Attr ''patch_embed0''] s1 2 (init_channels c) (C div 4)
                        (embedding_norm c)) (\<lambda>pe0.
               ebind (pos_embed_init (pos_embed c) [Attr ''pos_embed0''] [1, C div 4, s2, s2])
                 (\<lambda>pos0.
               ebind (build_stage c heads dpr ds 0 (C div 4) s2 56 28 0.25) (\<lambda>st0.
               ebind (PatchEmbed_init [Attr ''patch_embed1''] s2 2 (C div 4) (C div 2)
                        (embedding_norm c)) (\<lambda>pe1.
               ebind (pos_embed_init (pos_embed c) [Attr ''pos_embed1''] [1, C div 2, s3, s3])
                 (\<lambda>pos1.
               ebind (build_stage c heads dpr ds 1 (C div 2) s3 28 14 0.5) (\<lambda>st1.
               ebind (PatchEmbed_init [Attr ''patch_embed2''] s3 2 (C div 2) C
                        (embedding_norm c)) (\<lambda>pe2.
               ebind (pos_embed_init (pos_embed c) [Attr ''pos_embed2''] [1, C, s4, s4]) (\<lambda>pos2.
               ebind (build_stage c heads dpr ds 2 C s4 14 7 1.0) (\<lambda>st2.
               ebind (PatchEmbed_init [Attr ''patch_embed3''] s4 2 C (C * 2)
                        (embedding_norm c)) (\<lambda>pe3.
               ebind (pos_embed_init (pos_embed c) [Attr ''pos_embed3''] [1, C * 2, s5, s5])
                 (\<lambda>pos3.
               ebind (build_stage c heads dpr ds 3 (C * 2) s5 7 3 1.0) (\<lambda>st3.
               ebind (BatchNorm [Attr ''norm''] (C * 2)) (\<lambda>nrm.
               ebind (Dense [Attr ''head''] (C * 2) (num_classes c)) (\<lambda>hd.
               Inr \<lparr>v_num_classes = num_classes c, v_embed_dim = C,
                    v_init_channels = init_channels c, v_img_size = img_size c,
                    v_pool = pool c, v_conv_init = conv_init c, v_depth = ds,
                    v_pos_embed = pos_embed c, v_stem_conv = stem_conv, v_stem_bn = stem_bn,
                    v_pos_drop = pos_drop,
                    v_patch_embed0 = pe0, v_pos_embed0 = pos0, v_stage0 = st0,
                    v_patch_embed1 = pe1, v_pos_embed1 = pos1, v_stage1 = st1,
                    v_patch_embed2 = pe2, v_pos_embed2 = pos2, v_stage2 = st2,
                    v_patch_embed3 = pe3, v_pos_embed3 = pos3, v_stage3 = st3,
                    v_norm = nrm, v_head = hd\<rparr>)))))))))))))))))))"

section \<open>The forward passes over a tensor interface\<close>

text \<open>
  The operations of the tensor library and the forward functions of the library cells,
  over any tensor type: an operation that can refuse its operands returns a sum. The
  forward functions below are written against this interface, so that one definition
  serves the claims about values and the claims about shapes. The three operations of
  the attention logits come first, on their own. \<open>t_corner\<close> is the subscription
  \<^verbatim>\<open>x[:, :, 0, 0]\<close>, \<open>t_item\<close> the subscription \<^verbatim>\<open>x[i]\<close>, \<open>t_gather\<close> the subscription of a
  table by a flat integer index, \<open>t_param\<close> the current value of a parameter.
  Modelled from the spec: \<^verbatim>\<open>DropPath\<close> and \<^verbatim>\<open>GlobalAvgPooling\<close> come from \<^verbatim>\<open>.layers\<close>, which is
  not among the sources; they are the operations \<open>t_drop_path\<close> (stochastic depth with a
  given probability) and \<open>t_avg_pool\<close> (global average pool) of the interface.
\<close>

record 't linalg_ops =
  t_mul :: "'t \<Rightarrow> real \<Rightarrow> 't"
  t_transpose :: "'t \<Rightarrow> nat list \<Rightarrow> error + 't"
  t_matmul :: "'t \<Rightarrow> 't \<Rightarrow> error + 't"

record 't tensor_ops = "'t linalg_ops" +
  t_shape :: "'t \<Rightarrow> int list"
  t_param :: "parameter \<Rightarrow> 't"
  t_conv2d :: "conv2d_layer \<Rightarrow> 't \<Rightarrow> error + 't"
  t_batch_norm :: "norm_layer \<Rightarrow> 't \<Rightarrow> error + 't"
  t_dense :: "dense_layer \<Rightarrow> 't \<Rightarrow> error + 't"
  t_relu :: "'t \<Rightarrow> 't"
  t_gelu :: "'t \<Rightarrow> 't"
  t_softmax :: "'t \<Rightarrow> 't"
  t_dropout :: "real \<Rightarrow> 't \<Rightarrow> 't"
  t_drop_path :: "real \<Rightarrow> 't \<Rightarrow> 't"
  t_avg_pool :: "'t \<Rightarrow> error + 't"
  t_add :: "'t \<Rightarrow> 't \<Rightarrow> error + 't"
  t_reshape :: "'t \<Rightarrow> int list \<Rightarrow> error + 't"
  t_item :: "'t \<Rightarrow> int \<Rightarrow> error + 't"
  t_gather :: "'t \<Rightarrow> int list \<Rightarrow> error + 't"
  t_expand_dims :: "'t \<Rightarrow> nat \<Rightarrow> 't"
  t_corner :: "'t \<Rightarrow> error + 't"

text \<open>Mlp.construct (lines 94-105).\<close>

definition Mlp_construct :: "'t tensor_ops \<Rightarrow> mlp \<Rightarrow> 't \<Rightarrow> error + 't" where
  "Mlp_construct P m x =
     ebind (t_conv2d P (mlp_conv1 m) x) (\<lambda>x.
     let x = t_gelu P x;
         x = t_dropout P (mlp_drop m) x
     in ebind (if mlp_spatial_conv m
               then (case mlp_conv2 m of
                       None \<Rightarrow> Inl AttributeError
                     | Some c2 \<Rightarrow> ebind (t_conv2d P c2 x) (\<lambda>x. Inr (t_gelu P x)))
               else Inr x) (\<lambda>x.
        ebind (t_conv2d P (mlp_conv3 m) x) (\<lambda>x.
        Inr (t_dropout P (mlp_drop m) x))))"

text \<open>The attention logits of line 169: both factors carry the scale.\<close>

definition attn_logits ::
  "('t, 'z) linalg_ops_scheme \<Rightarrow> real \<Rightarrow> 't \<Rightarrow> 't \<Rightarrow> error + 't" where
  "attn_logits P scl q k =
     ebind (t_transpose P k [0, 1, 3, 2]) (\<lambda>kt.
     t_matmul P (t_mul P q scl) (t_mul P kt scl))"

text \<open>WindowAttention.construct (lines 162-181).\<close>

definition WindowAttention_construct ::
  "'t tensor_ops \<Rightarrow> window_attention \<Rightarrow> 't \<Rightarrow> error + 't" where
  "WindowAttention_construct P a x =
     (case t_shape P x of
        [B, C, H, W] \<Rightarrow>
          ebind (t_conv2d P (wa_qkv a) x) (\<lambda>x.
          ebind (t_reshape P x [B, 3, wa_num_heads a, wa_head_dim a, H * W]) (\<lambda>qkv.
          ebind (t_transpose P qkv [1, 0, 2, 4, 3]) (\<lambda>qkv.
          ebind (t_item P qkv 0) (\<lambda>q.
          ebind (t_item P qkv 1) (\<lambda>k.
          ebind (t_item P qkv 2) (\<lambda>v.
          ebind (attn_logits P (wa_scale a) q k) (\<lambda>attn.
          ebind (t_gather P (t_param P (wa_relative_postion_bias_table a))
                   (concat (wa_relative_position_index a))) (\<lambda>rpb.
          ebind (t_reshape P rpb
                   [fst (wa_window_size a) * snd (wa_window_size a),
                    fst (wa_window_size a) * snd (wa_window_size a), - 1]) (\<lambda>rpb.
          ebind (t_transpose P rpb [2, 0, 1]) (\<lambda>rpb.
          ebind (t_add P attn (t_expand_dims P rpb 0)) (\<lambda>attn.
          let attn = t_softmax P attn;
              attn = t_dropout P (wa_attn_drop a) attn
          in ebind (t_matmul P attn v) (\<lambda>x.
             ebind (t_transpose P x [0, 1, 3, 2]) (\<lambda>x.
             ebind (t_reshape P x [B, - 1, H, W]) (\<lambda>x.
             ebind (t_conv2d P (wa_proj a) x) (\<lambda>x.
             Inr (t_dropout P (wa_proj_drop a) x))))))))))))))))
      | _ \<Rightarrow> Inl ValueError)"

text \<open>Block.construct (lines 226-230).\<close>

definition drop_path_apply :: "'t tensor_ops \<Rightarrow> drop_path_layer \<Rightarrow> 't \<Rightarrow> 't" where
  "drop_path_apply P d x = (case d of DropPath p \<Rightarrow> t_drop_path P p x | Identity \<Rightarrow> x)"

definition attn_branch :: "'t tensor_ops \<Rightarrow> block \<Rightarrow> 't \<Rightarrow> error + 't" where
  "attn_branch P b x =
     (case (blk_norm1 b, blk_attn b) of
        (Some n1, Some a) \<Rightarrow>
          ebind (t_batch_norm P n1 x) (\<lambda>y.
          ebind (WindowAttention_construct P a y) (\<lambda>y.
          Inr (drop_path_apply P (blk_drop_path b) y)))
      | _ \<Rightarrow> Inl AttributeError)"

definition mlp_branch :: "'t tensor_ops \<Rightarrow> block \<Rightarrow> 't \<Rightarrow> error + 't" where
  "mlp_branch P b x =
     ebind (t_batch_norm P (blk_norm2 b) x) (\<lambda>y.
     ebind (Mlp_construct P (blk_mlp b) y) (\<lambda>y.
     Inr (drop_path_apply P (blk_drop_path b) y)))"

definition Block_construct :: "'t tensor_ops \<Rightarrow> block \<Rightarrow> 't \<Rightarrow> error + 't" where
  "Block_construct P b x =
     ebind (if \<not> blk_attn_disabled b
            then ebind (attn_branch P b x) (\<lambda>y. t_add P x y)
            else Inr x) (\<lambda>x.
     ebind (mlp_branch P b x) (\<lambda>y. t_add P x y))"

text \<open>PatchEmbed.construct (lines 255-259).\<close>

definition PatchEmbed_construct :: "'t tensor_ops \<Rightarrow> patch_embed \<Rightarrow> 't \<Rightarrow> error + 't" where
  "PatchEmbed_construct P pe x =
     ebind (t_conv2d P (pe_proj pe) x) (\<lambda>x.
     case pe_norm pe of None \<Rightarrow> Inr x | Some n \<Rightarrow> t_batch_norm P n x)"

text \<open>Visformer.construct (lines 410-452): the stem, one stage, the head.\<close>

definition stem_construct :: "'t tensor_ops \<Rightarrow> visformer \<Rightarrow> 't \<Rightarrow> error + 't" where
  "stem_construct P m x =
     ebind (t_conv2d P (v_stem_conv m) x) (\<lambda>x.
     ebind (t_batch_norm P (v_stem_bn m) x) (\<lambda>x.
     Inr (t_relu P x)))"

definition stage_construct ::
  "'t tensor_ops \<Rightarrow> visformer \<Rightarrow> patch_embed \<Rightarrow> parameter option \<Rightarrow> block list \<Rightarrow> 't
   \<Rightarrow> error + 't" where
  "stage_construct P m pe pos blocks x =
     ebind (PatchEmbed_construct P pe x) (\<lambda>x.
     ebind (if v_pos_embed m
            then (case pos of
                    None \<Rightarrow> Inl AttributeError
                  | Some p \<Rightarrow> ebind (t_add P x (t_param P p)) (\<lambda>x.
                              Inr (t_dropout P (v_pos_drop m) x)))
            else Inr x) (\<lambda>x.
     foldE (Block_construct P) blocks x))"

definition head_construct :: "'t tensor_ops \<Rightarrow> visformer \<Rightarrow> 't \<Rightarrow> error + 't" where
  "head_construct P m x =
     ebind (t_batch_norm P (v_norm m) x) (\<lambda>x.
     ebind (if v_pool m then t_avg_pool P x else t_corner P x) (\<lambda>x.
     ebind (py_get (t_shape P x) 0) (\<lambda>n.
     ebind (t_reshape P x [n, - 1]) (\<lambda>x.
     t_dense P (v_head m) x))))"

definition Visformer_features :: "'t tensor_ops \<Rightarrow> visformer \<Rightarrow> 't \<Rightarrow> error + 't" where
  "Visformer_features P m x =
     ebind (stem_construct P m x) (\<lambda>x.
     ebind (stage_construct P m (v_patch_embed0 m) (v_pos_embed0 m) (v_stage0 m) x) (\<lambda>x.
     ebind (stage_construct P m (v_patch_embed1 m) (v_pos_embed1 m) (v_stage1 m) x) (\<lambda>x.
     ebind (stage_construct P m (v_patch_embed2 m) (v_pos_embed2 m) (v_stage2 m) x) (\<lambda>x.
     stage_construct P m (v_patch_embed3 m) (v_pos_embed3 m) (v_stage3 m) x))))"

definition Visformer_construct :: "'t tensor_ops \<Rightarrow> visformer \<Rightarrow> 't \<Rightarrow> error + 't" where
  "Visformer_construct P m x = ebind (Visformer_features P m x) (head_construct P m)"

section \<open>The shape of every operation\<close>

text \<open>
  The interface instantiated at shapes: a tensor is its shape, and each operation checks
  what the library checks about shapes and gives the shape of the result. A refused
  operand raises (\<open>ValueError\<close>, or \<open>IndexError\<close> for an index out of range).
\<close>

type_synonym shape = "int list"

definition numel :: "shape \<Rightarrow> int" where
  "numel s = prod_list s"

text \<open>Broadcasting aligns the shapes at their last axis; an axis of extent 1 stretches.\<close>

fun broadcast_rev :: "shape \<Rightarrow> shape \<Rightarrow> error + shape" where
  "broadcast_rev [] ys = Inr ys"
| "broadcast_rev xs [] = Inr xs"
| "broadcast_rev (x # xs) (y # ys) =
     (if x = y \<or> y = 1 then ebind (broadcast_rev xs ys) (\<lambda>r. Inr (x # r))
      else if x = 1 then ebind (broadcast_rev xs ys) (\<lambda>r. Inr (y # r))
      else Inl ValueError)"

definition broadcast :: "shape \<Rightarrow> shape \<Rightarrow> error + shape" where
  "broadcast a b = ebind (broadcast_rev (rev a) (rev b)) (\<lambda>r. Inr (rev r))"

definition shape_conv2d :: "conv2d_layer \<Rightarrow> shape \<Rightarrow> error + shape" where
  "shape_conv2d l s =
     (case s of
        [n, c, h, w] \<Rightarrow>
          if c = conv_in l \<and> conv_kernel l \<le> h + 2 * conv_padding l
               \<and> conv_kernel l \<le> w + 2 * conv_padding l
          then Inr [n, conv_out l,
                    (h + 2 * conv_padding l - conv_kernel l) div conv_stride l + 1,
                    (w + 2 * conv_padding l - conv_kernel l) div conv_stride l + 1]
          else Inl ValueError
      | _ \<Rightarrow> Inl ValueError)"

definition shape_batch_norm :: "norm_layer \<Rightarrow> shape \<Rightarrow> error + shape" where
  "shape_batch_norm l s =
     (case s of
        [n, c, h, w] \<Rightarrow> if c = norm_features l then Inr s else Inl ValueError
      | _ \<Rightarrow> Inl ValueError)"

definition shape_dense :: "dense_layer \<Rightarrow> shape \<Rightarrow> error + shape" where
  "shape_dense l s =
     (if s \<noteq> [] \<and> last s = dense_in l then Inr (butlast s @ [dense_out l])
      else Inl ValueError)"

definition shape_avg_pool :: "shape \<Rightarrow> error + shape" where
  "shape_avg_pool s = (case s of [n, c, h, w] \<Rightarrow> Inr [n, c] | _ \<Rightarrow> Inl ValueError)"

definition shape_corner :: "shape \<Rightarrow> error + shape" where
  "shape_corner s =
     (case s of
        [n, c, h, w] \<Rightarrow> if 0 < h \<and> 0 < w then Inr [n, c] else Inl IndexError
      | _ \<Rightarrow> Inl IndexError)"

text \<open>Matrix product of operands of rank at least 2, the leading axes broadcast.\<close>

definition shape_matmul :: "shape \<Rightarrow> shape \<Rightarrow> error + shape" where
  "shape_matmul a b =
     (if length a < 2 \<or> length b < 2 then Inl ValueError
      else if last a \<noteq> b ! (length b - 2) then Inl ValueError
      else ebind (broadcast (take (length a - 2) a) (take (length b - 2) b)) (\<lambda>lead.
           Inr (lead @ [a ! (length a - 2), last b])))"

text \<open>A reshape keeps the number of elements; one extent may be \<open>-1\<close> and is inferred.\<close>

definition shape_reshape :: "shape \<Rightarrow> int list \<Rightarrow> error + shape" where
  "shape_reshape s tgt =
     (let known = prod_list (filter (\<lambda>d. d \<noteq> - 1) tgt);
          holes = length (filter (\<lambda>d. d = - 1) tgt)
      in if \<not> list_all (\<lambda>d. - 1 \<le> d) tgt \<or> 1 < holes then Inl ValueError
         else if holes = 0 then (if known = numel s then Inr tgt else Inl ValueError)
         else if known = 0 \<or> numel s mod known \<noteq> 0 then Inl ValueError
         else Inr (map (\<lambda>d. if d = - 1 then numel s div known else d) tgt))"

definition shape_transpose :: "shape \<Rightarrow> nat list \<Rightarrow> error + shape" where
  "shape_transpose s perm =
     (if length perm = length s \<and> distinct perm \<and> list_all (\<lambda>i. i < length s) perm
      then Inr (map (\<lambda>i. s ! i) perm)
      else Inl ValueError)"

definition shape_item :: "shape \<Rightarrow> int \<Rightarrow> error + shape" where
  "shape_item s i =
     (case s of
        [] \<Rightarrow> Inl IndexError
      | d # r \<Rightarrow> if - d \<le> i \<and> i < d then Inr r else Inl IndexError)"

text \<open>A gather of rows: every index must name a row of the table.\<close>

definition shape_gather :: "shape \<Rightarrow> int list \<Rightarrow> error + shape" where
  "shape_gather tbl idx =
     (case tbl of
        [] \<Rightarrow> Inl IndexError
      | d # r \<Rightarrow> if list_all (\<lambda>i. 0 \<le> i \<and> i < d) idx then Inr (int (length idx) # r)
                 else Inl IndexError)"

definition shape_expand_dims :: "shape \<Rightarrow> nat \<Rightarrow> shape" where
  "shape_expand_dims s axis = take axis s @ [1] @ drop axis s"

definition shape_ops :: "shape tensor_ops" where
  "shape_ops =
     \<lparr>t_mul = (\<lambda>s _. s),
      t_transpose = shape_transpose,
      t_matmul = shape_matmul,
      t_shape = (\<lambda>s. s),
      t_param = p_shape,
      t_conv2d = shape_conv2d,
      t_batch_norm = shape_batch_norm,
      t_dense = shape_dense,
      t_relu = (\<lambda>s. s),
      t_gelu = (\<lambda>s. s),
      t_softmax = (\<lambda>s. s),
      t_dropout = (\<lambda>_ s. s),
      t_drop_path = (\<lambda>_ s. s),
      t_avg_pool = shape_avg_pool,
      t_add = broadcast,
      t_reshape = shape_reshape,
      t_item = shape_item,
      t_gather = shape_gather,
      t_expand_dims = shape_expand_dims,
      t_corner = shape_corner\<rparr>"

section \<open>Real matrices for the attention logits\<close>

text \<open>
  The three operations that line 169 uses, on real tensors of rank 4
  \<open>(B, heads, rows, columns)\<close> given as nested lists: the product with a scalar, the
  transposition (here only the permutations that keep the two leading axes, which are
  the ones a product over the last two axes meets), and the matrix product over the last
  two axes, which refuses operands whose batch, head or inner extents differ.
\<close>

type_synonym matrix = "real list list"
type_synonym tensor4 = "matrix list list"

definition rectangular :: "matrix \<Rightarrow> bool" where
  "rectangular A \<longleftrightarrow> (case A of [] \<Rightarrow> True | r # rs \<Rightarrow> list_all (\<lambda>row. length row = length r) rs)"

definition mat_cols :: "matrix \<Rightarrow> nat" where
  "mat_cols A = (case A of [] \<Rightarrow> 0 | r # _ \<Rightarrow> length r)"

definition dot :: "real list \<Rightarrow> real list \<Rightarrow> real" where
  "dot u v = sum_list (map2 (*) u v)"

definition mat_mul :: "matrix \<Rightarrow> matrix \<Rightarrow> matrix" where
  "mat_mul A B = map (\<lambda>row. map (\<lambda>col. dot row col) (transpose B)) A"

definition mat_scale :: "matrix \<Rightarrow> real \<Rightarrow> matrix" where
  "mat_scale A s = map (map (\<lambda>v. v * s)) A"

definition mat_compatible :: "matrix \<Rightarrow> matrix \<Rightarrow> bool" where
  "mat_compatible A B \<longleftrightarrow> rectangular A \<and> rectangular B \<and> mat_cols A = length B"

definition real_mul :: "tensor4 \<Rightarrow> real \<Rightarrow> tensor4" where
  "real_mul T s = map (map (\<lambda>A. mat_scale A s)) T"

definition real_transpose :: "tensor4 \<Rightarrow> nat list \<Rightarrow> error + tensor4" where
  "real_transpose T perm =
     (if perm = [0, 1, 3, 2] then Inr (map (map transpose) T)
      else if perm = [0, 1, 2, 3] then Inr T
      else Inl ValueError)"

definition real_matmul :: "tensor4 \<Rightarrow> tensor4 \<Rightarrow> error + tensor4" where
  "real_matmul S T =
     (if list_all2 (list_all2 mat_compatible) S T then Inr (map2 (map2 mat_mul) S T)
      else Inl ValueError)"

definition real_linalg :: "tensor4 linalg_ops" where
  "real_linalg = \<lparr>t_mul = real_mul, t_transpose = real_transpose, t_matmul = real_matmul\<rparr>"

text \<open>
  The reference the spec compares with: the conventional logits, \<open>head_dim ** -0.5\<close>
  applied once to the product of the unscaled factors.
\<close>

definition attn_logits_single_scale ::
  "('t, 'z) linalg_ops_scheme \<Rightarrow> int \<Rightarrow> 't \<Rightarrow> 't \<Rightarrow> error + 't" where
  "attn_logits_single_scale P head_dim q k =
     ebind (t_transpose P k [0, 1, 3, 2]) (\<lambda>kt.
     ebind (t_matmul P q kt) (\<lambda>qk.
     Inr (t_mul P qk (real_of_int head_dim powr (- 0.5)))))"

section \<open>Auxiliary notions for the statements\<close>

text \<open>The closed form of sample \<open>i\<close> of \<open>linspace a b n\<close>.\<close>

definition linspace_nth :: "real \<Rightarrow> real \<Rightarrow> int \<Rightarrow> nat \<Rightarrow> real" where
  "linspace_nth a b n i =
     (if 1 < n \<and> int i = n - 1 then b
      else if 1 < n then real i * ((b - a) / real_of_int (n - 1)) + a
      else real i * (b - a) + a)"

text \<open>A block with its stored shift erased.\<close>

definition forget_shift :: "block \<Rightarrow> block" where
  "forget_shift b = b\<lparr>blk_shift_size := 0\<rparr>"

text \<open>
  The contract of WindowAttention.construct on its caller: the window of every block that
  has attention is the block's input resolution.
\<close>

definition all_blocks :: "visformer \<Rightarrow> block list" where
  "all_blocks m = v_stage0 m @ v_stage1 m @ v_stage2 m @ v_stage3 m"

definition windows_cover :: "visformer \<Rightarrow> bool" where
  "windows_cover m \<longleftrightarrow>
     list_all (\<lambda>b. blk_attn_disabled b \<or> to_2tuple (blk_window_size b) = blk_input_resolution b)
       (all_blocks m)"

section \<open>The presets (lines 455-509)\<close>

definition default_config :: config where
  "default_config =
     \<lparr>img_size = 224, init_channels = 32, num_classes = 1000, embed_dim = 384,
      depth = None, num_heads = HeadsScalar 6, mlp_ratio = 4, qkv_bias = False,
      qk_scale = None, drop_rate = 0, attn_drop_rate = 0, drop_path_rate = 0.1,
      attn_stage = ''1111'', pos_embed = True, spatial_conv = ''1111'', group = 8,
      pool = True, conv_init = False, embedding_norm = False\<rparr>"

definition visformer_tiny :: config where
  "visformer_tiny =
     default_config\<lparr>img_size := 224, init_channels := 16, embed_dim := 192,
       depth := Some [0, 7, 4, 4], num_heads := HeadsSeq [3, 3, 3, 3], mlp_ratio := 4,
       group := 8, attn_stage := ''0011'', spatial_conv := ''1100'',
       drop_path_rate := 0.03, conv_init := True, embedding_norm := True\<rparr>"

definition visformer_small :: config where
  "visformer_small =
     default_config\<lparr>img_size := 224, init_channels := 32, embed_dim := 384,
       depth := Some [0, 7, 4, 4], num_heads := HeadsSeq [6, 6, 6, 6], mlp_ratio := 4,
       group := 8, attn_stage := ''0011'', spatial_conv := ''1100'',
       conv_init := True, embedding_norm := True\<rparr>"

definition visformer_small_v2 :: config where
  "visformer_small_v2 =
     default_config\<lparr>img_size := 224, init_channels := 32, embed_dim := 256,
       depth := Some [1, 10, 14, 3], num_heads := HeadsSeq [2, 4, 8, 16], mlp_ratio := 4,
       qk_scale := Some (- 0.5), group := 8, attn_stage := ''0011'',
       spatial_conv := ''1100'', conv_init := True, embedding_norm := True\<rparr>"

definition visformer_tiny_v2 :: config where
  "visformer_tiny_v2 =
     default_config\<lparr>img_size := 224, init_channels := 24, embed_dim := 192,
       depth := Some [1, 4, 6, 3], num_heads := HeadsSeq [1, 3, 6, 12], mlp_ratio := 4,
       qk_scale := Some (- 0.5), group := 8, attn_stage := ''0011'',
       spatial_conv := ''1100'', drop_path_rate := 0.03, conv_init := True,
       embedding_norm := True\<rparr>"

text \<open>The four stages of a model, by their index.\<close>

definition stages :: "visformer \<Rightarrow> block list list" where
  "stages m = [v_stage0 m, v_stage1 m, v_stage2 m, v_stage3 m]"

section \<open>When a constructor succeeds\<close>

lemma Conv2d_eq_Inr:
  "Conv2d nm cin cout k s p g b = Inr l \<longleftrightarrow>
     0 < cin \<and> 0 < cout \<and> 0 < k \<and> 0 < s \<and> 0 \<le> p \<and> 0 < g \<and> cin mod g = 0 \<and> cout mod g = 0
     \<and> l = \<lparr>conv_name = nm, conv_in = cin, conv_out = cout, conv_kernel = k,
              conv_stride = s, conv_padding = p, conv_group = g, conv_has_bias = b\<rparr>"
  by (auto simp: Conv2d_def)

lemma BatchNorm_eq_Inr:
  "BatchNorm nm d = Inr l \<longleftrightarrow> 0 < d \<and> l = \<lparr>norm_name = nm @ [Attr ''bn''], norm_features = d\<rparr>"
  by (auto simp: BatchNorm_def)

lemma Dense_eq_Inr:
  "Dense nm a b = Inr l \<longleftrightarrow> 0 < a \<and> 0 < b \<and> l = \<lparr>dense_name = nm, dense_in = a, dense_out = b\<rparr>"
  by (auto simp: Dense_def)

lemma Dropout_eq_Inr: "Dropout kp = Inr d \<longleftrightarrow> 0 < kp \<and> kp \<le> 1 \<and> d = kp"
  by (auto simp: Dropout_def)

lemma zeros_eq_Inr:
  "zeros nm shp = Inr p \<longleftrightarrow> list_all (\<lambda>d. 0 \<le> d) shp \<and> p = \<lparr>p_name = nm, p_shape = shp\<rparr>"
  by (auto simp: zeros_def)

lemmas layer_eq_Inr = Conv2d_eq_Inr BatchNorm_eq_Inr Dense_eq_Inr Dropout_eq_Inr zeros_eq_Inr

lemma if_eq_Inr: "(if c then a else b) = Inr y \<longleftrightarrow> (c \<and> a = Inr y) \<or> (\<not> c \<and> b = Inr y)"
  by simp

section \<open>Facts about the relative position index\<close>

lemma ebind_Inl [simp]: "ebind (Inl e) f = Inl e"
  by (simp add: ebind_def)

lemma ebind_Inr [simp]: "ebind (Inr x) f = f x"
  by (simp add: ebind_def)

lemma ebind_eq_Inr: "ebind m f = Inr y \<longleftrightarrow> (\<exists>x. m = Inr x \<and> f x = Inr y)"
  by (cases m) auto

lemma length_concat_const: "length (concat (map (\<lambda>_. xs) ys)) = length ys * length xs"
  by (induction ys) auto

lemma nth_concat_const:
  "p < length ys * length xs \<Longrightarrow> concat (map (\<lambda>_. xs) ys) ! p = xs ! (p mod length xs)"
proof (induction ys arbitrary: p)
  case Nil
  then show ?case by simp
next
  case (Cons y ys)
  show ?case
  proof (cases "p < length xs")
    case True
    then show ?thesis by (simp add: nth_append)
  next
    case False
    then have "p - length xs < length ys * length xs"
      using Cons.prems by simp
    from Cons.IH [OF this] False show ?thesis
      by (simp add: nth_append le_mod_geq)
  qed
qed

lemma length_concat_rows:
  "length (concat (map (\<lambda>y. map (\<lambda>_. y) xs) ys)) = length ys * length xs"
  by (induction ys) auto

lemma nth_concat_rows:
  "p < length ys * length xs \<Longrightarrow>
   concat (map (\<lambda>y. map (\<lambda>_. y) xs) ys) ! p = ys ! (p div length xs)"
proof (induction ys arbitrary: p)
  case Nil
  then show ?case by simp
next
  case (Cons y ys)
  show ?case
  proof (cases "p < length xs")
    case True
    then show ?thesis by (simp add: nth_append)
  next
    case False
    then have lt: "p - length xs < length ys * length xs"
      using Cons.prems by simp
    have pos: "0 < length xs"
      using Cons.prems by (cases "length xs") auto
    have "p div length xs = Suc ((p - length xs) div length xs)"
      using False pos by (simp add: le_div_geq)
    with Cons.IH [OF lt] False show ?thesis
      by (simp add: nth_append)
  qed
qed

lemma coords_flatten_eq:
  "coords_flatten (H, W) =
     (concat (map (\<lambda>_. arange H) (arange W)),
      concat (map (\<lambda>y. map (\<lambda>_. y) (arange H)) (arange W)))"
  unfolding coords_flatten_def meshgrid_def flatten_def Let_def fst_conv snd_conv
  by (rule refl)

lemma length_arange: "length (arange n) = nat n"
  by (simp add: arange_def)

lemma nth_arange: "i < nat n \<Longrightarrow> arange n ! i = int i"
  by (simp add: arange_def)

lemma length_coords_flatten:
  "length (fst (coords_flatten (H, W))) = nat W * nat H"
  "length (snd (coords_flatten (H, W))) = nat W * nat H"
  unfolding coords_flatten_eq fst_conv snd_conv
  by (simp_all only: length_concat_const length_concat_rows length_arange)

lemma coord_eq:
  assumes "p < nat H * nat W"
  shows "coord (H, W) p = (int (p mod nat H), int (p div nat H))"
proof -
  have p: "p < length (arange W) * length (arange H)"
    using assms by (simp add: length_arange mult.commute)
  have d: "p div nat H < nat W"
    using assms by (simp add: less_mult_imp_div_less mult.commute)
  have m: "p mod nat H < nat H"
    using assms by (cases "nat H") auto
  have "fst (coords_flatten (H, W)) ! p = arange H ! (p mod nat H)"
    unfolding coords_flatten_eq fst_conv
    using nth_concat_const [OF p] by (simp only: length_arange)
  moreover have "snd (coords_flatten (H, W)) ! p = arange W ! (p div nat H)"
    unfolding coords_flatten_eq snd_conv
    using nth_concat_rows [OF p] by (simp only: length_arange)
  ultimately show ?thesis
    using d m by (simp add: coord_def nth_arange)
qed

lemma length_relative_position_index:
  "length (relative_position_index (H, W)) = nat H * nat W"
  by (simp add: relative_position_index_def Let_def outer_sub_def length_coords_flatten
      mult.commute)

lemma nth_relative_position_index:
  assumes "p < nat H * nat W"
  shows "relative_position_index (H, W) ! p =
         map (\<lambda>q. (fst (coord (H, W) p) - fst (coord (H, W) q) + (H - 1)) * (2 * W - 1)
                 + (snd (coord (H, W) p) - snd (coord (H, W) q) + (W - 1)))
             [0..<nat H * nat W]"
  using assms
  by (auto simp: relative_position_index_def Let_def outer_sub_def length_coords_flatten
      mult.commute coord_def intro!: nth_equalityI)

lemma coord_range:
  assumes "p < nat H * nat W"
  shows "0 \<le> fst (coord (H, W) p) \<and> fst (coord (H, W) p) \<le> H - 1
       \<and> 0 \<le> snd (coord (H, W) p) \<and> snd (coord (H, W) p) \<le> W - 1"
proof -
  have d: "p div nat H < nat W"
    using assms by (simp add: less_mult_imp_div_less mult.commute)
  have m: "p mod nat H < nat H"
    using assms by (cases "nat H") auto
  show ?thesis
    using d m by (simp add: coord_eq [OF assms]) linarith
qed

lemma index_bound:
  fixes H W a b c d :: int
  assumes "0 \<le> a" "a \<le> H - 1" "0 \<le> b" "b \<le> H - 1"
    and "0 \<le> c" "c \<le> W - 1" "0 \<le> d" "d \<le> W - 1"
  shows "0 \<le> (a - b + (H - 1)) * (2 * W - 1) + (c - d + (W - 1))"
    and "(a - b + (H - 1)) * (2 * W - 1) + (c - d + (W - 1)) < (2 * H - 1) * (2 * W - 1)"
proof -
  have W: "0 < 2 * W - 1" using assms by linarith
  have y0: "0 \<le> a - b + (H - 1)" and y1: "a - b + (H - 1) \<le> 2 * H - 2"
    using assms by linarith+
  have x0: "0 \<le> c - d + (W - 1)" and x1: "c - d + (W - 1) \<le> 2 * W - 2"
    using assms by linarith+
  from y0 W have "0 \<le> (a - b + (H - 1)) * (2 * W - 1)" by simp
  with x0 show "0 \<le> (a - b + (H - 1)) * (2 * W - 1) + (c - d + (W - 1))" by linarith
  from y1 W have "(a - b + (H - 1)) * (2 * W - 1) \<le> (2 * H - 2) * (2 * W - 1)"
    by (simp add: mult_right_mono)
  also have "\<dots> = (2 * H - 1) * (2 * W - 1) - (2 * W - 1)"
    by (simp add: algebra_simps)
  finally show "(a - b + (H - 1)) * (2 * W - 1) + (c - d + (W - 1)) < (2 * H - 1) * (2 * W - 1)"
    using x1 by linarith
qed

lemma relative_position_index_entry:
  assumes p: "p < nat H * nat W" and q: "q < nat H * nat W"
  shows "relative_position_index (H, W) ! p ! q =
           (fst (coord (H, W) p) - fst (coord (H, W) q) + (H - 1)) * (2 * W - 1)
           + (snd (coord (H, W) p) - snd (coord (H, W) q) + (W - 1))"
    and "0 \<le> relative_position_index (H, W) ! p ! q"
    and "relative_position_index (H, W) ! p ! q < (2 * H - 1) * (2 * W - 1)"
proof -
  show e: "relative_position_index (H, W) ! p ! q =
           (fst (coord (H, W) p) - fst (coord (H, W) q) + (H - 1)) * (2 * W - 1)
           + (snd (coord (H, W) p) - snd (coord (H, W) q) + (W - 1))"
    using q by (simp add: nth_relative_position_index [OF p])
  note cp = coord_range [OF p] and cq = coord_range [OF q]
  show "0 \<le> relative_position_index (H, W) ! p ! q"
    unfolding e using cp cq by (intro index_bound) auto
  show "relative_position_index (H, W) ! p ! q < (2 * H - 1) * (2 * W - 1)"
    unfolding e using cp cq by (intro index_bound) auto
qed

text \<open>
  Claim C1. For a window of positive height \<open>H\<close> and width \<open>W\<close> the relative position
  index has \<open>H * W\<close> rows of \<open>H * W\<close> entries each; the entry for the ordered pair
  \<open>(p, q)\<close> is \<open>(dy + (H - 1)) * (2 W - 1) + (dx + (W - 1))\<close> with
  \<open>(dy, dx) = coord p - coord q\<close>, and it lies in \<open>[0, (2 H - 1) * (2 W - 1))\<close>. The grid
  is flattened so that position \<open>p\<close> has coordinate \<open>(p mod H, p div H)\<close>.
\<close>

theorem relative_position_index_spec:
  assumes "0 < H" and "0 < W"
  shows "length (relative_position_index (H, W)) = nat (H * W)
       \<and> (\<forall>p < nat (H * W).
            length (relative_position_index (H, W) ! p) = nat (H * W)
          \<and> coord (H, W) p = (int (p mod nat H), int (p div nat H))
          \<and> (\<forall>q < nat (H * W).
               relative_position_index (H, W) ! p ! q =
                 (fst (coord (H, W) p) - fst (coord (H, W) q) + (H - 1)) * (2 * W - 1)
                 + (snd (coord (H, W) p) - snd (coord (H, W) q) + (W - 1))
             \<and> 0 \<le> relative_position_index (H, W) ! p ! q
             \<and> relative_position_index (H, W) ! p ! q < (2 * H - 1) * (2 * W - 1)))"
proof -
  have n: "nat (H * W) = nat H * nat W"
    using assms by (simp add: nat_mult_distrib)
  show ?thesis
    unfolding n
  proof (intro conjI allI impI)
    show "length (relative_position_index (H, W)) = nat H * nat W"
      by (rule length_relative_position_index)
  next
    fix p assume "p < nat H * nat W"
    then show "length (relative_position_index (H, W) ! p) = nat H * nat W"
      by (simp add: nth_relative_position_index)
  next
    fix p assume "p < nat H * nat W"
    then show "coord (H, W) p = (int (p mod nat H), int (p div nat H))"
      by (rule coord_eq)
  next
    fix p q assume "p < nat H * nat W" "q < nat H * nat W"
    then show "relative_position_index (H, W) ! p ! q =
                 (fst (coord (H, W) p) - fst (coord (H, W) q) + (H - 1)) * (2 * W - 1)
                 + (snd (coord (H, W) p) - snd (coord (H, W) q) + (W - 1))"
      by (rule relative_position_index_entry(1))
  next
    fix p q assume "p < nat H * nat W" "q < nat H * nat W"
    then show "0 \<le> relative_position_index (H, W) ! p ! q"
      by (rule relative_position_index_entry(2))
  next
    fix p q assume "p < nat H * nat W" "q < nat H * nat W"
    then show "relative_position_index (H, W) ! p ! q < (2 * H - 1) * (2 * W - 1)"
      by (rule relative_position_index_entry(3))
  qed
qed

theorem relative_position_index_spec_witness:
  "(0::int) < 2 \<and> (0::int) < 3
   \<and> relative_position_index (2, 3) ! 1 ! 4 = 10
   \<and> coord (2, 3) 1 = (1, 0) \<and> coord (2, 3) 4 = (0, 2)"
proof -
  have "relative_position_index (2, 3) ! 1 ! 4 =
        (fst (coord (2, 3) 1) - fst (coord (2, 3) 4) + (2 - 1)) * (2 * 3 - 1)
        + (snd (coord (2, 3) 1) - snd (coord (2, 3) 4) + (3 - 1))"
    and "coord (2, 3) 1 = (int (1 mod nat 2), int (1 div nat 2))"
    and "coord (2, 3) 4 = (int (4 mod nat 2), int (4 div nat 2))"
    using relative_position_index_spec [of 2 3] by simp_all
  then show ?thesis by simp
qed

section \<open>The drop-path schedule\<close>

lemma linspace_Inr:
  assumes "0 \<le> n"
  shows "linspace a b n = Inr (map (linspace_nth a b n) [0..<nat n])"
  using assms
  by (auto simp: linspace_def linspace_nth_def Let_def arange_def intro!: nth_equalityI simp: nth_list_update)

lemma linspace_negative: "n < 0 \<Longrightarrow> linspace a b n = Inl ValueError"
  by (simp add: linspace_def)

lemma linspace_nth_mono:
  assumes r: "0 \<le> r" and ij: "i \<le> j" and j: "int j < n"
  shows "linspace_nth 0 r n i \<le> linspace_nth 0 r n j"
proof (cases "1 < n")
  case False
  with ij j have "i = 0" "j = 0" by auto
  then show ?thesis by simp
next
  case True
  then have pos: "0 < real_of_int (n - 1)" by simp
  have step: "0 \<le> r / real_of_int (n - 1)" using r pos by simp
  have le: "real k * (r / real_of_int (n - 1)) \<le> r" if "int k \<le> n - 1" for k
  proof -
    have "real k \<le> real_of_int (n - 1)" using that by linarith
    then have "real k * (r / real_of_int (n - 1)) \<le> real_of_int (n - 1) * (r / real_of_int (n - 1))"
      using step by (rule mult_right_mono)
    also have "\<dots> = r" using pos by simp
    finally show ?thesis .
  qed
  show ?thesis
  proof (cases "int j = n - 1")
    case True
    with \<open>1 < n\<close> ij le [of i] show ?thesis by (auto simp: linspace_nth_def)
  next
    case False
    with ij j have ni: "int i \<noteq> n - 1" by linarith
    have a: "linspace_nth 0 r n i = real i * (r / real_of_int (n - 1))"
      using ni \<open>1 < n\<close> by (simp add: linspace_nth_def)
    have b: "linspace_nth 0 r n j = real j * (r / real_of_int (n - 1))"
      using False \<open>1 < n\<close> by (simp add: linspace_nth_def)
    show ?thesis
      unfolding a b using ij step by (intro mult_right_mono) auto
  qed
qed

text \<open>
  Claim C4, as amended. For a rate \<open>r \<ge> 0\<close> and a depth list whose sum \<open>n\<close> is not negative
  the drop-path schedule exists, has length \<open>n\<close> and is non-decreasing; for \<open>n \<ge> 2\<close> it is
  the linear spacing \<open>k * r / (n - 1)\<close>, starting at 0 and ending at \<open>r\<close>; for \<open>n = 1\<close> it is
  the one-element sequence \<open>[0]\<close>, whose last element is 0 and not \<open>r\<close>; only for
  \<open>n = 0\<close> it is empty.
\<close>

theorem drop_path_schedule_spec:
  assumes "0 \<le> r" and "0 \<le> sum_list ds"
  shows "\<exists>dpr. drop_path_schedule r ds = Inr dpr
     \<and> length dpr = nat (sum_list ds)
     \<and> sorted dpr
     \<and> (\<forall>k < nat (sum_list ds). 2 \<le> sum_list ds \<longrightarrow>
           dpr ! k = real k * r / real_of_int (sum_list ds - 1))
     \<and> (1 \<le> sum_list ds \<longrightarrow> dpr ! 0 = 0)
     \<and> (2 \<le> sum_list ds \<longrightarrow> last dpr = r)
     \<and> (sum_list ds = 1 \<longrightarrow> dpr = [0])
     \<and> (sum_list ds = 0 \<longrightarrow> dpr = [])"
proof -
  define n where "n = sum_list ds"
  define dpr where "dpr = map (linspace_nth 0 r n) [0..<nat n]"
  have n: "0 \<le> n" using assms by (simp add: n_def)
  have eq: "drop_path_schedule r ds = Inr dpr"
    using linspace_Inr [OF n] by (simp add: drop_path_schedule_def dpr_def n_def)
  have len: "length dpr = nat n" by (simp add: dpr_def)
  have srt: "sorted dpr"
    unfolding sorted_iff_nth_mono len
  proof (intro allI impI)
    fix i j assume "i \<le> j" "j < nat n"
    then show "dpr ! i \<le> dpr ! j"
      using linspace_nth_mono [OF assms(1), of i j n] by (simp add: dpr_def)
  qed
  have nth: "dpr ! k = real k * r / real_of_int (n - 1)" if "k < nat n" "2 \<le> n" for k
  proof (cases "int k = n - 1")
    case True
    then have "real k = real_of_int (n - 1)" by (metis of_int_of_nat_eq)
    moreover have "0 < real_of_int (n - 1)" using that by simp
    moreover have "dpr ! k = r" using True that by (simp add: dpr_def linspace_nth_def)
    ultimately show ?thesis by simp
  next
    case False
    with that show ?thesis by (simp add: dpr_def linspace_nth_def)
  qed
  have first: "dpr ! 0 = 0" if "1 \<le> n"
    using that by (simp add: dpr_def linspace_nth_def)
  have lst: "last dpr = r" if "2 \<le> n"
  proof -
    have "dpr \<noteq> []" using that len by auto
    then have "last dpr = dpr ! (nat n - 1)" by (simp add: last_conv_nth len)
    also have "\<dots> = r" using that by (simp add: dpr_def linspace_nth_def)
    finally show ?thesis .
  qed
  have one: "dpr = [0]" if "n = 1"
    using that by (simp add: dpr_def linspace_nth_def)
  have zero: "dpr = []" if "n = 0"
    using that by (simp add: dpr_def)
  show ?thesis
    using eq len srt nth first lst one zero unfolding n_def [symmetric] by blast
qed

theorem drop_path_schedule_spec_witness:
  "(0::real) \<le> 1 / 10 \<and> (0::int) \<le> sum_list [1, 4, 6, 3]
   \<and> (\<exists>dpr. drop_path_schedule (1 / 10) [1, 4, 6, 3] = Inr dpr \<and> length dpr = 14
         \<and> sorted dpr \<and> dpr ! 0 = 0 \<and> last dpr = 1 / 10)"
  using drop_path_schedule_spec [of "1 / 10" "[1, 4, 6, 3]"] by auto

text \<open>
  The claim as stated fails when the depths sum to 1: the schedule is \<open>[0]\<close>, neither
  empty nor ending at \<open>r\<close>.
\<close>

theorem drop_path_schedule_counterexample:
  "drop_path_schedule (1 / 10) [0, 0, 0, 1] = Inr [0]
   \<and> last [0 :: real] \<noteq> 1 / 10 \<and> [0 :: real] \<noteq> []"
  by (simp add: drop_path_schedule_def linspace_def arange_def Let_def)

section \<open>The hidden width of the Mlp\<close>

lemma Mlp_init_hidden:
  assumes "Mlp_init nm cin hid outf drp grp sp = Inr m"
  shows "mlp_hidden_features m = Mlp_hidden cin hid grp sp"
  using assms by (auto simp: Mlp_init_def Let_def ebind_eq_Inr)

text \<open>
  Claim C7, as amended. In a constructed Mlp the hidden width is \<open>in_features * 5 // 6\<close>
  (floor division) with the spatial convolution and a group below 2, \<open>in_features * 2\<close>
  with the spatial convolution and a group of at least 2, and otherwise the value the
  caller passed when that is a non-zero integer, \<open>in_features\<close> when the caller passed
  \<^verbatim>\<open>None\<close> or 0.
\<close>

theorem Mlp_hidden_width:
  assumes "Mlp_init nm in_features hidden_features out_features drp grp spatial = Inr m"
  shows "mlp_hidden_features m =
           (if spatial then (if grp < 2 then in_features * 5 div 6 else in_features * 2)
            else (case hidden_features of
                    None \<Rightarrow> in_features
                  | Some h \<Rightarrow> if h = 0 then in_features else h))"
  using Mlp_init_hidden [OF assms] by (simp add: Mlp_hidden_def py_or_def)


theorem Mlp_hidden_width_witness:
  "\<exists>m. Mlp_init [] 48 (Some 192) None 0 8 False = Inr m \<and> mlp_hidden_features m = 192"
proof -
  have "\<exists>m. Mlp_init [] 48 (Some 192) None 0 8 False = Inr m"
    by (simp add: Mlp_init_def Mlp_hidden_def py_or_def Let_def Conv2d_def Dropout_def)
  then obtain m where m: "Mlp_init [] 48 (Some 192) None 0 8 False = Inr m" ..
  from Mlp_hidden_width [OF m] m show ?thesis by simp
qed

text \<open>
  The claim as stated fails for a block of 3 channels with \<open>mlp_ratio = 0.25\<close> and no
  spatial convolution: the block passes \<open>int(3 * 0.25) = 0\<close>, and the hidden width is 3.
\<close>

theorem Mlp_hidden_width_counterexample:
  "py_int (real_of_int 3 * (1 / 4)) = 0
   \<and> map_sum id (\<lambda>b. mlp_hidden_features (blk_mlp b))
        (Block_init [] 3 (7, 7) 1 7 0 1 (1 / 4) False None 0 0 0 8 True False) = Inr 3"
  by (simp add: Block_init_def Block_window_def Mlp_init_def Mlp_hidden_def py_or_def py_int_def
      Let_def Conv2d_def Dropout_def BatchNorm_def)

section \<open>Blocks: the window clamp, the forward pass, the shift\<close>

lemma relative_position_index_rows:
  assumes "row \<in> set (relative_position_index (H, W))"
  shows "\<forall>i \<in> set row. 0 \<le> i \<and> i < (2 * H - 1) * (2 * W - 1)"
proof -
  from assms obtain p where p: "p < nat H * nat W" and row: "row = relative_position_index (H, W) ! p"
    by (auto simp: in_set_conv_nth length_relative_position_index)
  have len: "length row = nat H * nat W"
    by (simp add: row nth_relative_position_index [OF p])
  show ?thesis
  proof
    fix i assume "i \<in> set row"
    then obtain q where q: "q < nat H * nat W" and i: "i = row ! q"
      by (auto simp: in_set_conv_nth len)
    show "0 \<le> i \<and> i < (2 * H - 1) * (2 * W - 1)"
      unfolding i row using relative_position_index_entry(2,3) [OF p q] by simp
  qed
qed

lemma relative_position_index_in_range:
  "list_all (\<lambda>i. 0 \<le> i \<and> i < (2 * H - 1) * (2 * W - 1)) (concat (relative_position_index (H, W)))"
  using relative_position_index_rows [of _ H W] by (auto simp: list_all_iff)

lemma length_concat_relative_position_index:
  "length (concat (relative_position_index (H, W))) = (nat H * nat W) * (nat H * nat W)"
proof -
  have "map length (relative_position_index (H, W)) = replicate (nat H * nat W) (nat H * nat W)"
    by (auto intro!: nth_equalityI simp: length_relative_position_index nth_relative_position_index)
  then show ?thesis by (simp add: length_concat sum_list_replicate)
qed

lemma WindowAttention_init_Inr:
  assumes "WindowAttention_init nm dimn ws nh ratio qb qs ad pd = Inr a"
  shows "wa_dim a = dimn" "wa_window_size a = ws" "wa_num_heads a = nh"
    and "wa_head_dim a = py_int (real_of_int (dimn div nh) * ratio)"
    and "wa_relative_postion_bias_table a =
           \<lparr>p_name = nm @ [Attr ''relative_postion_bias_table''],
            p_shape = [(2 * fst ws - 1) * (2 * snd ws - 1), nh]\<rparr>"
    and "wa_relative_position_index a = relative_position_index ws"
    and "py_pow (wa_head_dim a) (qk_scale_factor qs) = Inr (wa_scale a)"
    and "wa_qkv a = \<lparr>conv_name = nm @ [Attr ''qkv''], conv_in = dimn,
                      conv_out = wa_head_dim a * nh * 3, conv_kernel = 1, conv_stride = 1,
                      conv_padding = 0, conv_group = 1, conv_has_bias = qb\<rparr>"
    and "wa_proj a = \<lparr>conv_name = nm @ [Attr ''proj''], conv_in = wa_head_dim a * nh,
                       conv_out = dimn, conv_kernel = 1, conv_stride = 1,
                       conv_padding = 0, conv_group = 1, conv_has_bias = False\<rparr>"
    and "0 < dimn" "0 < nh" "0 < wa_head_dim a"
proof -
  from assms have nh0: "nh \<noteq> 0"
    by (auto simp: WindowAttention_init_def split: if_splits)
  note * = assms [unfolded WindowAttention_init_def Let_def, simplified nh0 if_False ebind_eq_Inr layer_eq_Inr]
  from * show "wa_dim a = dimn" "wa_window_size a = ws" "wa_num_heads a = nh"
    and "wa_head_dim a = py_int (real_of_int (dimn div nh) * ratio)"
    and "wa_relative_postion_bias_table a =
           \<lparr>p_name = nm @ [Attr ''relative_postion_bias_table''],
            p_shape = [(2 * fst ws - 1) * (2 * snd ws - 1), nh]\<rparr>"
    and "wa_relative_position_index a = relative_position_index ws"
    and "py_pow (wa_head_dim a) (qk_scale_factor qs) = Inr (wa_scale a)"
    and "wa_qkv a = \<lparr>conv_name = nm @ [Attr ''qkv''], conv_in = dimn,
                      conv_out = wa_head_dim a * nh * 3, conv_kernel = 1, conv_stride = 1,
                      conv_padding = 0, conv_group = 1, conv_has_bias = qb\<rparr>"
    and "wa_proj a = \<lparr>conv_name = nm @ [Attr ''proj''], conv_in = wa_head_dim a * nh,
                       conv_out = dimn, conv_kernel = 1, conv_stride = 1,
                       conv_padding = 0, conv_group = 1, conv_has_bias = False\<rparr>"
    and "0 < dimn"
    by auto
  from * nh0 show nh: "0 < nh" by auto
  from * have "0 < wa_head_dim a * nh" by auto
  with nh show "0 < wa_head_dim a"
    by (simp add: zero_less_mult_iff)
qed


lemma ebind_assoc: "ebind (ebind m f) g = ebind m (\<lambda>x. ebind (f x) g)"
  by (cases m) auto

lemma Block_init_Inr:
  assumes "Block_init nm dimn res nh ws sh ratio mr qb qs drp ad dp grp dis sp = Inr b"
  shows "blk_attn_disabled b = dis" "blk_spatial_conv b = sp" "blk_input_resolution b = res"
    and "blk_window_size b = fst (Block_window res ws sh)"
    and "blk_shift_size b = snd (Block_window res ws sh)"
    and "blk_drop_path b = (if 0 < dp then DropPath dp else Identity)"
    and "blk_norm2 b = \<lparr>norm_name = nm @ [Attr ''norm2'', Attr ''bn''], norm_features = dimn\<rparr>"
    and "0 < dimn"
    and "Mlp_init (nm @ [Attr ''mlp'']) dimn (Some (py_int (real_of_int dimn * mr))) None drp grp sp
           = Inr (blk_mlp b)"
    and "dis \<Longrightarrow> blk_norm1 b = None \<and> blk_attn b = None"
    and "\<not> dis \<Longrightarrow> \<exists>a. blk_norm1 b = Some \<lparr>norm_name = nm @ [Attr ''norm1'', Attr ''bn''],
                                          norm_features = dimn\<rparr>
                    \<and> blk_attn b = Some a
                    \<and> WindowAttention_init (nm @ [Attr ''attn'']) dimn
                         (to_2tuple (fst (Block_window res ws sh))) nh ratio qb qs ad drp = Inr a"
proof -
  note * = assms [unfolded Block_init_def Let_def, simplified ebind_eq_Inr BatchNorm_eq_Inr]
  from * show "blk_attn_disabled b = dis" "blk_spatial_conv b = sp" "blk_input_resolution b = res"
    and "blk_window_size b = fst (Block_window res ws sh)"
    and "blk_shift_size b = snd (Block_window res ws sh)"
    and "blk_drop_path b = (if 0 < dp then DropPath dp else Identity)"
    and "blk_norm2 b = \<lparr>norm_name = nm @ [Attr ''norm2'', Attr ''bn''], norm_features = dimn\<rparr>"
    and "0 < dimn"
    and "Mlp_init (nm @ [Attr ''mlp'']) dimn (Some (py_int (real_of_int dimn * mr))) None drp grp sp
           = Inr (blk_mlp b)"
    by auto
  from * show "dis \<Longrightarrow> blk_norm1 b = None \<and> blk_attn b = None"
    by auto
  from * show "\<not> dis \<Longrightarrow> \<exists>a. blk_norm1 b = Some \<lparr>norm_name = nm @ [Attr ''norm1'', Attr ''bn''],
                                          norm_features = dimn\<rparr>
                    \<and> blk_attn b = Some a
                    \<and> WindowAttention_init (nm @ [Attr ''attn'']) dimn
                         (to_2tuple (fst (Block_window res ws sh))) nh ratio qb qs ad drp = Inr a"
    by (auto simp: ebind_eq_Inr BatchNorm_eq_Inr)
qed

text \<open>
  Claim C5, as amended. A block constructed with a configured window larger than
  \<open>min(input_resolution)\<close> stores \<open>min(input_resolution)\<close> as its window, which is the input
  resolution itself when that is square, and the shift 0. If the block has an attention
  module, its window is that size in both directions, its bias table has
  \<open>(2 w - 1) * (2 w - 1)\<close> rows, every entry of its relative position index names a row of
  the table, and the gather of line 170 succeeds.
\<close>

theorem Block_window_clamp:
  assumes "Block_init nm dimn res nh ws sh ratio mr qb qs drp ad dp grp dis sp = Inr b"
    and "min (fst res) (snd res) < ws"
  shows "blk_window_size b = min (fst res) (snd res) \<and> blk_shift_size b = 0
       \<and> (fst res = snd res \<longrightarrow> to_2tuple (blk_window_size b) = res)
       \<and> (\<forall>a. blk_attn b = Some a \<longrightarrow>
            wa_window_size a = to_2tuple (blk_window_size b)
          \<and> p_shape (wa_relative_postion_bias_table a) =
              [(2 * blk_window_size b - 1) * (2 * blk_window_size b - 1), nh]
          \<and> list_all (\<lambda>i. 0 \<le> i \<and> i < (2 * blk_window_size b - 1) * (2 * blk_window_size b - 1))
              (concat (wa_relative_position_index a))
          \<and> t_gather shape_ops (t_param shape_ops (wa_relative_postion_bias_table a))
              (concat (wa_relative_position_index a))
            = Inr [int (length (concat (wa_relative_position_index a))), nh])"
proof -
  note B = Block_init_Inr [OF assms(1)]
  define w where "w = min (fst res) (snd res)"
  have win: "Block_window res ws sh = (w, 0)"
    using assms(2) by (simp add: Block_window_def w_def)
  have w: "blk_window_size b = w" and s: "blk_shift_size b = 0"
    using B(4,5) win by simp_all
  have sq: "to_2tuple (blk_window_size b) = res" if "fst res = snd res"
    using that by (cases res) (simp add: w w_def to_2tuple_def)
  have att: "wa_window_size a = to_2tuple w
          \<and> p_shape (wa_relative_postion_bias_table a) = [(2 * w - 1) * (2 * w - 1), nh]
          \<and> list_all (\<lambda>i. 0 \<le> i \<and> i < (2 * w - 1) * (2 * w - 1))
              (concat (wa_relative_position_index a))
          \<and> t_gather shape_ops (t_param shape_ops (wa_relative_postion_bias_table a))
              (concat (wa_relative_position_index a))
            = Inr [int (length (concat (wa_relative_position_index a))), nh]"
    if a: "blk_attn b = Some a" for a
  proof -
    have nd: "\<not> dis" using B(10) a by auto
    from B(11) [OF nd] a win
    have init: "WindowAttention_init (nm @ [Attr ''attn'']) dimn (to_2tuple w) nh ratio qb qs ad drp = Inr a"
      by auto
    note A = WindowAttention_init_Inr [OF init]
    have rng: "list_all (\<lambda>i. 0 \<le> i \<and> i < (2 * w - 1) * (2 * w - 1))
              (concat (wa_relative_position_index a))"
      using relative_position_index_in_range [of w w] by (simp add: A(6) to_2tuple_def)
    show ?thesis
      using rng by (simp add: A(2,5) to_2tuple_def shape_ops_def shape_gather_def)
  qed
  show ?thesis
    using sq att by (simp add: w s w_def)
qed


lemma Block_init_example:
  "\<exists>b. Block_init [] 8 (2, 2) 1 7 3 1 4 False None 0 0 0 8 False False = Inr b"
  by (simp add: Block_init_def Block_window_def WindowAttention_init_def Mlp_init_def
      Mlp_hidden_def py_or_def py_int_def py_pow_def qk_scale_factor_def to_2tuple_def
      Let_def Conv2d_def Dropout_def BatchNorm_def zeros_def)

theorem Block_window_clamp_witness:
  "min (fst (2, 2)) (snd (2, 2)) < (7::int)
   \<and> (\<exists>b. Block_init [] 8 (2, 2) 1 7 3 1 4 False None 0 0 0 8 False False = Inr b
          \<and> blk_window_size b = 2 \<and> blk_shift_size b = 0 \<and> to_2tuple (blk_window_size b) = (2, 2)
          \<and> (\<exists>a. blk_attn b = Some a
                \<and> list_all (\<lambda>i. 0 \<le> i \<and> i < 9) (concat (wa_relative_position_index a))))"
proof -
  obtain b where b: "Block_init [] 8 (2, 2) 1 7 3 1 4 False None 0 0 0 8 False False = Inr b"
    using Block_init_example by blast
  have lt: "min (fst (2, 2)) (snd (2, 2)) < (7::int)" by simp
  obtain a where a: "blk_attn b = Some a"
    using Block_init_Inr(11) [OF b] by auto
  from Block_window_clamp [OF b lt] a b show ?thesis by auto
qed

text \<open>
  The claim as stated fails for an input resolution that is not square: for \<open>(4, 6)\<close> and
  the configured window 7 the stored window is 4, the window of the attention \<open>(4, 4)\<close>.
\<close>

theorem Block_window_clamp_counterexample:
  "min (fst (4, 6)) (snd (4, 6)) < (7::int)
   \<and> map_sum id (\<lambda>b. to_2tuple (blk_window_size b))
        (Block_init [] 8 (4, 6) 1 7 3 1 4 False None 0 0 0 8 False False) = Inr (4, 4)
   \<and> (4, 4) \<noteq> ((4, 6) :: int \<times> int)"
  by (simp add: Block_init_def Block_window_def WindowAttention_init_def Mlp_init_def
      Mlp_hidden_def py_or_def py_int_def py_pow_def qk_scale_factor_def to_2tuple_def
      Let_def Conv2d_def Dropout_def BatchNorm_def zeros_def)

text \<open>
  Claim C6. A constructed block with attention disabled computes
  \<open>x + DropPath(Mlp(Norm2(x)))\<close> and nothing else; with attention enabled it computes
  \<open>x1 = x + DropPath(Attention(Norm1(x)))\<close> and then \<open>x1 + DropPath(Mlp(Norm2(x1)))\<close>. The
  drop path is the identity when the configured rate is not positive.
\<close>

theorem Block_construct_spec:
  assumes "Block_init nm dimn res nh ws sh ratio mr qb qs drp ad dp grp dis sp = Inr b"
  shows "(dis \<longrightarrow>
            Block_construct P b x =
              ebind (t_batch_norm P (blk_norm2 b) x) (\<lambda>y.
              ebind (Mlp_construct P (blk_mlp b) y) (\<lambda>y.
              t_add P x (drop_path_apply P (blk_drop_path b) y))))
       \<and> (\<not> dis \<longrightarrow>
            (\<exists>n1 a. blk_norm1 b = Some n1 \<and> blk_attn b = Some a
               \<and> Block_construct P b x =
                   ebind (t_batch_norm P n1 x) (\<lambda>y.
                   ebind (WindowAttention_construct P a y) (\<lambda>y.
                   ebind (t_add P x (drop_path_apply P (blk_drop_path b) y)) (\<lambda>x1.
                   ebind (t_batch_norm P (blk_norm2 b) x1) (\<lambda>y.
                   ebind (Mlp_construct P (blk_mlp b) y) (\<lambda>y.
                   t_add P x1 (drop_path_apply P (blk_drop_path b) y))))))))
       \<and> blk_drop_path b = (if 0 < dp then DropPath dp else Identity)"
proof -
  note B = Block_init_Inr [OF assms]
  have off: "Block_construct P b x =
              ebind (t_batch_norm P (blk_norm2 b) x) (\<lambda>y.
              ebind (Mlp_construct P (blk_mlp b) y) (\<lambda>y.
              t_add P x (drop_path_apply P (blk_drop_path b) y)))" if dis
    using that B(1) by (simp add: Block_construct_def mlp_branch_def ebind_assoc)
  have on: "\<exists>n1 a. blk_norm1 b = Some n1 \<and> blk_attn b = Some a
               \<and> Block_construct P b x =
                   ebind (t_batch_norm P n1 x) (\<lambda>y.
                   ebind (WindowAttention_construct P a y) (\<lambda>y.
                   ebind (t_add P x (drop_path_apply P (blk_drop_path b) y)) (\<lambda>x1.
                   ebind (t_batch_norm P (blk_norm2 b) x1) (\<lambda>y.
                   ebind (Mlp_construct P (blk_mlp b) y) (\<lambda>y.
                   t_add P x1 (drop_path_apply P (blk_drop_path b) y))))))" if "\<not> dis"
  proof -
    from B(11) [OF that] obtain n1 a where na: "blk_norm1 b = Some n1" "blk_attn b = Some a"
      by blast
    show ?thesis
      using that B(1) na
      by (simp add: Block_construct_def attn_branch_def mlp_branch_def ebind_assoc)
  qed
  show ?thesis using off on B(6) by blast
qed

lemma Block_construct_forget_shift:
  "Block_construct P (forget_shift b) x = Block_construct P b x"
  by (simp add: Block_construct_def attn_branch_def mlp_branch_def forget_shift_def
      split: option.splits)

lemma Block_init_forget_shift:
  "map_sum id forget_shift
     (Block_init nm dimn res nh ws sh1 ratio mr qb qs drp ad dp grp dis sp)
   = map_sum id forget_shift
     (Block_init nm dimn res nh ws sh2 ratio mr qb qs drp ad dp grp dis sp)"
proof -
  have w: "fst (Block_window res ws sh1) = fst (Block_window res ws sh2)"
    by (simp add: Block_window_def)
  have ms: "map_sum id f (ebind m g) = ebind m (\<lambda>x. map_sum id f (g x))" for f :: "block \<Rightarrow> block" and m :: "error + 'x" and g
    by (cases m) auto
  show ?thesis
    unfolding Block_init_def Let_def w
    by (simp add: ms forget_shift_def)
qed

lemma ebind_forget_shift:
  assumes "\<And>b. F (forget_shift b) = F b"
  shows "ebind (map_sum id forget_shift m) F = ebind m F"
  using assms by (cases m) auto

lemma stage_block_forget_shift:
  "map_sum id forget_shift (stage_block c heads dpr k dimn r w sh1 ratio lo i)
   = map_sum id forget_shift (stage_block c heads dpr k dimn r w sh2 ratio lo i)"
proof -
  have ms: "map_sum id f (ebind m g) = ebind m (\<lambda>x. map_sum id f (g x))"
    for f :: "block \<Rightarrow> block" and m :: "error + 'x" and g
    by (cases m) auto
  show ?thesis
    unfolding stage_block_def ms
    by (simp add: Block_init_forget_shift [of _ _ _ _ _ "if i mod 2 = 0 then 0 else sh1" _ _ _ _ _ _ _ _ _ _
          "if i mod 2 = 0 then 0 else sh2"])
qed

lemma mapE_forget_shift:
  assumes "\<And>i. map_sum id forget_shift (f i) = map_sum id forget_shift (g i)"
  shows "map_sum id (map forget_shift) (mapE f xs) = map_sum id (map forget_shift) (mapE g xs)"
proof (induction xs)
  case Nil
  then show ?case by simp
next
  case (Cons i xs)
  show ?case
    using assms [of i] Cons.IH
    by (cases "f i"; cases "g i"; cases "mapE f xs"; cases "mapE g xs") auto
qed

lemma foldE_forget_shift:
  "foldE (Block_construct P) (map forget_shift bs) = foldE (Block_construct P) bs"
proof (induction bs)
  case Nil
  show ?case by simp
next
  case (Cons b bs)
  show ?case
    by (rule ext) (simp add: Cons.IH Block_construct_forget_shift)
qed

lemma ebind_map_forget_shift:
  "ebind (map_sum id (map forget_shift) m) (\<lambda>bs. foldE (Block_construct P) bs x)
   = ebind m (\<lambda>bs. foldE (Block_construct P) bs x)"
  by (cases m) (simp_all add: foldE_forget_shift)

text \<open>
  Claim C10. Constructing a block and running it gives the same result for any two
  values of \<open>shift_size\<close>, and so does constructing a stage and running its blocks for
  any two values of the shift that the stage builder hands to the odd-indexed blocks.
\<close>

theorem shift_size_independent:
  "ebind (Block_init nm dimn res nh ws sh1 ratio mr qb qs drp ad dp grp dis sp)
     (\<lambda>b. Block_construct P b x)
   = ebind (Block_init nm dimn res nh ws sh2 ratio mr qb qs drp ad dp grp dis sp)
     (\<lambda>b. Block_construct P b x)
   \<and> ebind (build_stage c heads dpr ds k dimn r w sh1 ratio)
       (\<lambda>bs. foldE (Block_construct P) bs x)
     = ebind (build_stage c heads dpr ds k dimn r w sh2 ratio)
       (\<lambda>bs. foldE (Block_construct P) bs x)"
proof
  have "ebind (Block_init nm dimn res nh ws sh1 ratio mr qb qs drp ad dp grp dis sp)
          (\<lambda>b. Block_construct P b x)
      = ebind (map_sum id forget_shift
                (Block_init nm dimn res nh ws sh1 ratio mr qb qs drp ad dp grp dis sp))
          (\<lambda>b. Block_construct P b x)"
    by (simp add: ebind_forget_shift Block_construct_forget_shift)
  also have "\<dots> = ebind (map_sum id forget_shift
                (Block_init nm dimn res nh ws sh2 ratio mr qb qs drp ad dp grp dis sp))
          (\<lambda>b. Block_construct P b x)"
    by (simp only: Block_init_forget_shift [of _ _ _ _ _ sh1 _ _ _ _ _ _ _ _ _ _ sh2])
  also have "\<dots> = ebind (Block_init nm dimn res nh ws sh2 ratio mr qb qs drp ad dp grp dis sp)
          (\<lambda>b. Block_construct P b x)"
    by (simp add: ebind_forget_shift Block_construct_forget_shift)
  finally show "ebind (Block_init nm dimn res nh ws sh1 ratio mr qb qs drp ad dp grp dis sp)
     (\<lambda>b. Block_construct P b x)
   = ebind (Block_init nm dimn res nh ws sh2 ratio mr qb qs drp ad dp grp dis sp)
     (\<lambda>b. Block_construct P b x)" .
next
  have eq: "map_sum id (map forget_shift) (build_stage c heads dpr ds k dimn r w sh1 ratio)
          = map_sum id (map forget_shift) (build_stage c heads dpr ds k dimn r w sh2 ratio)"
    unfolding build_stage_def Let_def
    by (rule mapE_forget_shift) (rule stage_block_forget_shift)
  show "ebind (build_stage c heads dpr ds k dimn r w sh1 ratio)
       (\<lambda>bs. foldE (Block_construct P) bs x)
     = ebind (build_stage c heads dpr ds k dimn r w sh2 ratio)
       (\<lambda>bs. foldE (Block_construct P) bs x)"
    using ebind_map_forget_shift [of "build_stage c heads dpr ds k dimn r w sh1 ratio" P x]
      ebind_map_forget_shift [of "build_stage c heads dpr ds k dimn r w sh2 ratio" P x]
    by (simp only: eq)
qed

theorem shift_size_independent_witness:
  "ebind (Block_init [] 8 (2, 2) 1 7 0 1 4 False None 0 0 0 8 False False)
     (\<lambda>b. Block_construct shape_ops b [1, 8, 2, 2])
   = ebind (Block_init [] 8 (2, 2) 1 7 3 1 4 False None 0 0 0 8 False False)
     (\<lambda>b. Block_construct shape_ops b [1, 8, 2, 2])"
  using shift_size_independent [of "[]" 8 "(2, 2)" 1 7 0 1 4 False None 0 0 0 8 False False
      shape_ops "[1, 8, 2, 2]" 3]
  by (rule conjunct1)

theorem Block_construct_spec_witness:
  "\<exists>b n1 a. Block_init [] 8 (2, 2) 1 7 3 1 4 False None 0 0 0 8 False False = Inr b
     \<and> blk_norm1 b = Some n1 \<and> blk_attn b = Some a \<and> blk_drop_path b = Identity
     \<and> Block_construct shape_ops b [1, 8, 2, 2] =
           ebind (t_batch_norm shape_ops n1 [1, 8, 2, 2]) (\<lambda>y.
           ebind (WindowAttention_construct shape_ops a y) (\<lambda>y.
           ebind (t_add shape_ops [1, 8, 2, 2] (drop_path_apply shape_ops (blk_drop_path b) y)) (\<lambda>x1.
           ebind (t_batch_norm shape_ops (blk_norm2 b) x1) (\<lambda>y.
           ebind (Mlp_construct shape_ops (blk_mlp b) y) (\<lambda>y.
           t_add shape_ops x1 (drop_path_apply shape_ops (blk_drop_path b) y))))))"
proof -
  obtain b where b: "Block_init [] 8 (2, 2) 1 7 3 1 4 False None 0 0 0 8 False False = Inr b"
    using Block_init_example by blast
  from Block_construct_spec [OF b, of shape_ops "[1, 8, 2, 2]"] b show ?thesis
    by auto
qed


section \<open>The split scaling of the attention logits\<close>

lemma dot_scale: "dot (map (\<lambda>v. v * s) u) (map (\<lambda>v. v * t) v) = dot u v * (s * t)"
proof (induction u arbitrary: v)
  case Nil
  then show ?case by (simp add: dot_def)
next
  case (Cons a u)
  then show ?case by (cases v) (simp_all add: dot_def algebra_simps)
qed

lemma rectangular_scale [simp]: "rectangular (mat_scale A s) = rectangular A"
  by (cases A) (simp_all add: rectangular_def mat_scale_def list_all_iff)

lemma mat_cols_scale [simp]: "mat_cols (mat_scale A s) = mat_cols A"
  by (cases A) (simp_all add: mat_cols_def mat_scale_def)

lemma length_mat_scale [simp]: "length (mat_scale A s) = length A"
  by (simp add: mat_scale_def)

lemma mat_compatible_scale [simp]:
  "mat_compatible (mat_scale A s) (mat_scale B t) = mat_compatible A B"
  by (simp add: mat_compatible_def)

lemma mat_mul_scale:
  "mat_mul (mat_scale A s) (mat_scale B t) = mat_scale (mat_mul A B) (s * t)"
  by (simp add: mat_mul_def mat_scale_def transpose_map_map dot_scale comp_def)

lemma map2_mat_mul_scale:
  "map2 mat_mul (map (\<lambda>A. mat_scale A s) xs) (map (\<lambda>A. mat_scale A t) ys)
   = map (\<lambda>A. mat_scale A (s * t)) (map2 mat_mul xs ys)"
  by (simp add: zip_map_map split_def comp_def mat_mul_scale)

lemma real_matmul_scale:
  "real_matmul (real_mul S s) (real_mul T t)
   = ebind (real_matmul S T) (\<lambda>R. Inr (real_mul R (s * t)))"
proof -
  have ok: "list_all2 (list_all2 mat_compatible) (real_mul S s) (real_mul T t)
          = list_all2 (list_all2 mat_compatible) S T"
    by (simp add: real_mul_def list_all2_map1 list_all2_map2)
  have val: "map2 (map2 mat_mul) (real_mul S s) (real_mul T t)
           = real_mul (map2 (map2 mat_mul) S T) (s * t)"
    unfolding real_mul_def
    by (simp add: zip_map_map split_def comp_def mat_mul_scale)
  show ?thesis
    by (simp add: real_matmul_def ok val)
qed

lemma powr_quarter_square:
  fixes h :: real
  assumes "0 < h"
  shows "h powr (- 0.25) * h powr (- 0.25) = h powr (- 0.5)"
proof -
  have "h powr (- 0.25) * h powr (- 0.25) = h powr (- 0.25 + - 0.25)"
    by (simp only: powr_add)
  also have "(- 0.25 + - 0.25 :: real) = - 0.5" by simp
  finally show ?thesis .
qed

text \<open>
  Claim C2. A WindowAttention constructed with \<open>qk_scale = None\<close> has the scale
  \<open>head_dim ** -0.25\<close>, whose square is \<open>head_dim ** -0.5\<close>, and on real tensors the logits of
  line 169, with the scale on both factors, are the logits of the reference that
  multiplies the product of the unscaled factors by \<open>head_dim ** -0.5\<close> once: the same
  values, and an error for the same operands.
\<close>

theorem split_scaling_equivalence:
  assumes "WindowAttention_init nm dimn ws nh ratio qb None ad pd = Inr a"
  shows "wa_scale a = real_of_int (wa_head_dim a) powr (- 0.25)
       \<and> wa_scale a * wa_scale a = real_of_int (wa_head_dim a) powr (- 0.5)
       \<and> attn_logits real_linalg (wa_scale a) q k
         = attn_logits_single_scale real_linalg (wa_head_dim a) q k"
proof -
  note A = WindowAttention_init_Inr [OF assms]
  have pos: "0 < real_of_int (wa_head_dim a)" using A(12) by simp
  have sc: "wa_scale a = real_of_int (wa_head_dim a) powr (- 0.25)"
    using A(7) A(12) by (simp add: py_pow_def qk_scale_factor_def)
  have sq: "wa_scale a * wa_scale a = real_of_int (wa_head_dim a) powr (- 0.5)"
    unfolding sc by (rule powr_quarter_square [OF pos])
  have "attn_logits real_linalg (wa_scale a) q k
         = attn_logits_single_scale real_linalg (wa_head_dim a) q k"
    by (simp add: attn_logits_def attn_logits_single_scale_def real_linalg_def
        real_matmul_scale sq)
  with sc sq show ?thesis by simp
qed

lemma WindowAttention_init_example:
  "\<exists>a. WindowAttention_init [] 8 (2, 2) 2 1 False None 0 0 = Inr a"
  by (simp add: WindowAttention_init_def py_int_def py_pow_def qk_scale_factor_def
      Let_def Conv2d_def Dropout_def zeros_def)

theorem split_scaling_equivalence_witness:
  "\<exists>a. WindowAttention_init [] 8 (2, 2) 2 1 False None 0 0 = Inr a
     \<and> wa_head_dim a = 4
     \<and> wa_scale a * wa_scale a = 4 powr (- 0.5)
     \<and> attn_logits real_linalg (wa_scale a) [[[[1, 2], [3, 4]]]] [[[[5, 6], [7, 8]]]]
       = attn_logits_single_scale real_linalg 4 [[[[1, 2], [3, 4]]]] [[[[5, 6], [7, 8]]]]"
proof -
  obtain a where a: "WindowAttention_init [] 8 (2, 2) 2 1 False None 0 0 = Inr a"
    using WindowAttention_init_example by blast
  have hd: "wa_head_dim a = 4"
    using WindowAttention_init_Inr(4) [OF a] by (simp add: py_int_def)
  from split_scaling_equivalence [OF a, of "[[[[1, 2], [3, 4]]]]" "[[[[5, 6], [7, 8]]]]"] a hd
  show ?thesis by auto
qed


section \<open>The constructed model\<close>

lemma Visformer_init_Inr:
  assumes "Visformer_init c = Inr m"
  shows "\<exists>ds dpr. depth c = Some ds \<and> length ds = 4
     \<and> drop_path_schedule (drop_path_rate c) ds = Inr dpr
     \<and> Conv2d [Attr ''stem'', Idx 0] 3 (init_channels c) 7 2 3 1 False = Inr (v_stem_conv m)
     \<and> BatchNorm [Attr ''stem'', Idx 1] (init_channels c) = Inr (v_stem_bn m)
     \<and> Dropout (1 - drop_rate c) = Inr (v_pos_drop m)
     \<and> PatchEmbed_init [Attr ''patch_embed0''] (img_size c div 2) 2 (init_channels c)
           (embed_dim c div 4) (embedding_norm c) = Inr (v_patch_embed0 m)
     \<and> pos_embed_init (pos_embed c) [Attr ''pos_embed0'']
           [1, embed_dim c div 4, img_size c div 2 div 2, img_size c div 2 div 2]
         = Inr (v_pos_embed0 m)
     \<and> build_stage c (broadcast_heads (num_heads c)) dpr ds 0 (embed_dim c div 4)
           (img_size c div 2 div 2) 56 28 0.25 = Inr (v_stage0 m)
     \<and> PatchEmbed_init [Attr ''patch_embed1''] (img_size c div 2 div 2) 2 (embed_dim c div 4)
           (embed_dim c div 2) (embedding_norm c) = Inr (v_patch_embed1 m)
     \<and> pos_embed_init (pos_embed c) [Attr ''pos_embed1'']
           [1, embed_dim c div 2, img_size c div 2 div 2 div 2, img_size c div 2 div 2 div 2]
         = Inr (v_pos_embed1 m)
     \<and> build_stage c (broadcast_heads (num_heads c)) dpr ds 1 (embed_dim c div 2)
           (img_size c div 2 div 2 div 2) 28 14 0.5 = Inr (v_stage1 m)
     \<and> PatchEmbed_init [Attr ''patch_embed2''] (img_size c div 2 div 2 div 2) 2
           (embed_dim c div 2) (embed_dim c) (embedding_norm c) = Inr (v_patch_embed2 m)
     \<and> pos_embed_init (pos_embed c) [Attr ''pos_embed2'']
           [1, embed_dim c, img_size c div 2 div 2 div 2 div 2,
            img_size c div 2 div 2 div 2 div 2]
         = Inr (v_pos_embed2 m)
     \<and> build_stage c (broadcast_heads (num_heads c)) dpr ds 2 (embed_dim c)
           (img_size c div 2 div 2 div 2 div 2) 14 7 1.0 = Inr (v_stage2 m)
     \<and> PatchEmbed_init [Attr ''patch_embed3''] (img_size c div 2 div 2 div 2 div 2) 2
           (embed_dim c) (embed_dim c * 2) (embedding_norm c) = Inr (v_patch_embed3 m)
     \<and> pos_embed_init (pos_embed c) [Attr ''pos_embed3'']
           [1, embed_dim c * 2, img_size c div 2 div 2 div 2 div 2 div 2,
            img_size c div 2 div 2 div 2 div 2 div 2]
         = Inr (v_pos_embed3 m)
     \<and> build_stage c (broadcast_heads (num_heads c)) dpr ds 3 (embed_dim c * 2)
           (img_size c div 2 div 2 div 2 div 2 div 2) 7 3 1.0 = Inr (v_stage3 m)
     \<and> BatchNorm [Attr ''norm''] (embed_dim c * 2) = Inr (v_norm m)
     \<and> Dense [Attr ''head''] (embed_dim c * 2) (num_classes c) = Inr (v_head m)
     \<and> v_pool m = pool c \<and> v_pos_embed m = pos_embed c \<and> v_num_classes m = num_classes c
     \<and> v_depth m = ds"
proof -
  from assms obtain ds where ds: "depth c = Some ds" "length ds = 4"
    by (auto simp: Visformer_init_def split: option.splits if_splits)
  from assms ds show ?thesis
    by (auto simp: Visformer_init_def Let_def ebind_eq_Inr)
qed


section \<open>The shape of the forward pass\<close>

lemma shape_ops_simps [simp]:
  "t_mul shape_ops = (\<lambda>s _. s)" "t_transpose shape_ops = shape_transpose"
  "t_matmul shape_ops = shape_matmul" "t_shape shape_ops = (\<lambda>s. s)"
  "t_param shape_ops = p_shape" "t_conv2d shape_ops = shape_conv2d"
  "t_batch_norm shape_ops = shape_batch_norm" "t_dense shape_ops = shape_dense"
  "t_relu shape_ops = (\<lambda>s. s)" "t_gelu shape_ops = (\<lambda>s. s)" "t_softmax shape_ops = (\<lambda>s. s)"
  "t_dropout shape_ops = (\<lambda>_ s. s)" "t_drop_path shape_ops = (\<lambda>_ s. s)"
  "t_avg_pool shape_ops = shape_avg_pool" "t_add shape_ops = broadcast"
  "t_reshape shape_ops = shape_reshape" "t_item shape_ops = shape_item"
  "t_gather shape_ops = shape_gather" "t_expand_dims shape_ops = shape_expand_dims"
  "t_corner shape_ops = shape_corner"
  by (simp_all add: shape_ops_def)

lemma broadcast_same: "broadcast s s = Inr s"
proof -
  have "broadcast_rev xs xs = Inr xs" for xs :: shape
    by (induction xs) simp_all
  then show ?thesis by (simp add: broadcast_def)
qed

lemma broadcast_batch: "broadcast [n, a, b, c] [1, a, b, c] = Inr [n, a, b, c]"
  by (simp add: broadcast_def)

lemma shape_conv2d_pointwise:
  assumes "conv_in l = c" "conv_kernel l = 1" "conv_stride l = 1" "conv_padding l = 0"
    and "0 < h" "0 < w"
  shows "shape_conv2d l [n, c, h, w] = Inr [n, conv_out l, h, w]"
  using assms by (simp add: shape_conv2d_def)

lemma shape_reshape_exact:
  assumes "list_all (\<lambda>d. 0 \<le> d) tgt" and "prod_list tgt = numel s"
  shows "shape_reshape s tgt = Inr tgt"
proof -
  have f: "filter (\<lambda>d. d \<noteq> - 1) tgt = tgt" "filter (\<lambda>d. d = - 1) tgt = []"
    using assms(1) by (auto simp: list_all_iff filter_id_conv filter_empty_conv)
  have a: "list_all (\<lambda>d. - 1 \<le> d) tgt"
    using assms(1) by (auto simp: list_all_iff)
  show ?thesis
    using assms(2) a by (simp add: shape_reshape_def f Let_def)
qed

lemma shape_reshape_hole:
  assumes "list_all (\<lambda>d. 0 \<le> d) pre" "list_all (\<lambda>d. 0 \<le> d) post"
    and "prod_list pre * prod_list post \<noteq> 0"
    and "numel s = prod_list pre * prod_list post * x"
  shows "shape_reshape s (pre @ [- 1] @ post) = Inr (pre @ [x] @ post)"
proof -
  have f: "filter (\<lambda>d. d \<noteq> - 1) pre = pre" "filter (\<lambda>d. d = - 1) pre = []"
    "filter (\<lambda>d. d \<noteq> - 1) post = post" "filter (\<lambda>d. d = - 1) post = []"
    using assms(1,2) by (auto simp: list_all_iff filter_id_conv filter_empty_conv)
  have a: "list_all (\<lambda>d. - 1 \<le> d) pre" "list_all (\<lambda>d. - 1 \<le> d) post"
    using assms(1,2) by (auto simp: list_all_iff)
  have m: "map (\<lambda>d. if d = - 1 then y else d) pre = pre"
    "map (\<lambda>d. if d = - 1 then y else d) post = post" for y :: int
    using assms(1,2) by (auto simp: list_all_iff intro!: map_idI)
  show ?thesis
    using assms(3,4) a by (simp add: shape_reshape_def f m Let_def)
qed

lemma WindowAttention_construct_shape:
  assumes init: "WindowAttention_init nm dimn (r, r) nh ratio qb qs ad pd = Inr a"
    and n: "0 < n" and r: "0 < r"
  shows "WindowAttention_construct shape_ops a [n, dimn, r, r] = Inr [n, dimn, r, r]"
proof -
  note A = WindowAttention_init_Inr [OF init]
  define hd where "hd = wa_head_dim a"
  define rr where "rr = r * r"
  have hd: "0 < hd" using A(12) by (simp add: hd_def)
  have nh: "0 < nh" by (rule A(11))
  have rr: "0 < rr" using r by (simp add: rr_def)
  have s1: "shape_conv2d (wa_qkv a) [n, dimn, r, r] = Inr [n, hd * nh * 3, r, r]"
    using r by (simp add: A(8) shape_conv2d_def hd_def)
  have s2: "shape_reshape [n, hd * nh * 3, r, r] [n, 3, nh, hd, rr] = Inr [n, 3, nh, hd, rr]"
    using n nh hd rr by (intro shape_reshape_exact) (simp_all add: numel_def rr_def)
  have s3: "shape_transpose [n, 3, nh, hd, rr] [1, 0, 2, 4, 3] = Inr [3, n, nh, rr, hd]"
    by (simp add: shape_transpose_def)
  have s4: "shape_item [3, n, nh, rr, hd] 0 = Inr [n, nh, rr, hd]"
    "shape_item [3, n, nh, rr, hd] 1 = Inr [n, nh, rr, hd]"
    "shape_item [3, n, nh, rr, hd] 2 = Inr [n, nh, rr, hd]"
    by (simp_all add: shape_item_def)
  have s5: "attn_logits shape_ops sc [n, nh, rr, hd] [n, nh, rr, hd] = Inr [n, nh, rr, rr]" for sc
    by (simp add: attn_logits_def shape_transpose_def shape_matmul_def broadcast_same)
  have len: "int (length (concat (wa_relative_position_index a))) = rr * rr"
    using r by (simp add: A(6) length_concat_relative_position_index rr_def)
  have s6: "shape_gather (p_shape (wa_relative_postion_bias_table a))
              (concat (wa_relative_position_index a)) = Inr [rr * rr, nh]"
    using relative_position_index_in_range [of r r]
    by (simp add: A(5,6) shape_gather_def len [unfolded A(6)])
  have s7: "shape_reshape [rr * rr, nh] [rr, rr, - 1] = Inr [rr, rr, nh]"
    using shape_reshape_hole [of "[rr, rr]" "[]" "[rr * rr, nh]" nh] rr
    by (simp add: numel_def)
  have s8: "shape_transpose [rr, rr, nh] [2, 0, 1] = Inr [nh, rr, rr]"
    by (simp add: shape_transpose_def)
  have s9: "shape_expand_dims [nh, rr, rr] 0 = [1, nh, rr, rr]"
    by (simp add: shape_expand_dims_def)
  have s10: "broadcast [n, nh, rr, rr] [1, nh, rr, rr] = Inr [n, nh, rr, rr]"
    by (rule broadcast_batch)
  have s11: "shape_matmul [n, nh, rr, rr] [n, nh, rr, hd] = Inr [n, nh, rr, hd]"
    by (simp add: shape_matmul_def broadcast_same)
  have s12: "shape_transpose [n, nh, rr, hd] [0, 1, 3, 2] = Inr [n, nh, hd, rr]"
    by (simp add: shape_transpose_def)
  have s13: "shape_reshape [n, nh, hd, rr] [n, - 1, r, r] = Inr [n, nh * hd, r, r]"
    using shape_reshape_hole [of "[n]" "[r, r]" "[n, nh, hd, rr]" "nh * hd"] n r
    by (simp add: numel_def rr_def)
  have s14: "shape_conv2d (wa_proj a) [n, nh * hd, r, r] = Inr [n, dimn, r, r]"
    using r by (simp add: A(9) shape_conv2d_def hd_def mult.commute)
  show ?thesis
    unfolding WindowAttention_construct_def
    by (simp only: shape_ops_simps list.case A(2,3) fst_conv snd_conv hd_def [symmetric]
        rr_def [symmetric] ebind_Inr Let_def s1 s2 s3 s4 s5 s6 s7 s8 s9 s10 s11 s12 s13 s14)
qed

lemma Mlp_construct_shape:
  assumes "Mlp_init nm dimn hid None drp grp sp = Inr ml" and "0 < h" and "0 < w"
  shows "Mlp_construct shape_ops ml [n, dimn, h, w] = Inr [n, dimn, h, w]"
  using assms
  by (auto simp: Mlp_init_def Let_def ebind_eq_Inr layer_eq_Inr Mlp_construct_def
      shape_conv2d_def py_or_def split: if_splits)

lemma drop_path_apply_shape [simp]: "drop_path_apply shape_ops d s = s"
  by (cases d) (simp_all add: drop_path_apply_def)

lemma Block_construct_shape:
  assumes init: "Block_init nm dimn (r, r) nh ws sh ratio mr qb qs drp ad dp grp dis sp = Inr b"
    and cover: "blk_attn_disabled b \<or> to_2tuple (blk_window_size b) = blk_input_resolution b"
    and n: "0 < n" and r: "0 < r"
  shows "Block_construct shape_ops b [n, dimn, r, r] = Inr [n, dimn, r, r]"
proof -
  note B = Block_init_Inr [OF init]
  have mlp: "mlp_branch shape_ops b [n, dimn, r, r] = Inr [n, dimn, r, r]"
    using Mlp_construct_shape [OF B(9) r r, of n]
    by (simp add: mlp_branch_def B(7) shape_batch_norm_def)
  show ?thesis
  proof (cases dis)
    case True
    then show ?thesis
      using B(1) mlp by (simp add: Block_construct_def broadcast_same)
  next
    case False
    from B(11) [OF False] obtain a where a: "blk_norm1 b = Some \<lparr>norm_name = nm @ [Attr ''norm1'', Attr ''bn''],
                                          norm_features = dimn\<rparr>"
      "blk_attn b = Some a"
      "WindowAttention_init (nm @ [Attr ''attn'']) dimn
         (to_2tuple (fst (Block_window (r, r) ws sh))) nh ratio qb qs ad drp = Inr a"
      by blast
    have "to_2tuple (fst (Block_window (r, r) ws sh)) = (r, r)"
      using cover False B(1,3,4) by simp
    with a(3) have "WindowAttention_init (nm @ [Attr ''attn'']) dimn (r, r) nh ratio qb qs ad drp = Inr a"
      by simp
    from WindowAttention_construct_shape [OF this n r]
    have "attn_branch shape_ops b [n, dimn, r, r] = Inr [n, dimn, r, r]"
      by (simp add: attn_branch_def a(1,2) shape_batch_norm_def)
    then show ?thesis
      using mlp by (simp add: Block_construct_def broadcast_same)
  qed
qed

lemma mapE_Inr_set:
  "mapE f xs = Inr ys \<Longrightarrow> y \<in> set ys \<Longrightarrow> \<exists>x \<in> set xs. f x = Inr y"
proof (induction xs arbitrary: ys)
  case Nil
  then show ?case by simp
next
  case (Cons x xs)
  then show ?case
    by (auto simp: ebind_eq_Inr)
qed

lemma foldE_fixed:
  "(\<And>b. b \<in> set bs \<Longrightarrow> f b s = Inr s) \<Longrightarrow> foldE f bs s = Inr s"
  by (induction bs) simp_all

lemma build_stage_blocks:
  assumes "build_stage c heads dpr ds k dimn r ws sh ratio = Inr bs" and "b \<in> set bs"
  shows "\<exists>nm nh sh' dp dis sp.
           Block_init nm dimn (r, r) nh ws sh' ratio (mlp_ratio c) (qkv_bias c) (qk_scale c)
             (drop_rate c) (attn_drop_rate c) dp (group c) dis sp = Inr b"
proof -
  from mapE_Inr_set [OF assms(1) [unfolded build_stage_def Let_def] assms(2)]
  obtain i where "stage_block c heads dpr k dimn r ws sh ratio (sum_list (take (nat k) ds)) i = Inr b"
    by blast
  then show ?thesis
    unfolding stage_block_def ebind_eq_Inr by blast
qed

lemma stage_blocks_shape:
  assumes st: "build_stage c heads dpr ds k dimn r ws sh ratio = Inr bs"
    and cover: "list_all (\<lambda>b. blk_attn_disabled b \<or>
                  to_2tuple (blk_window_size b) = blk_input_resolution b) bs"
    and n: "0 < n" and r: "0 < r"
  shows "foldE (Block_construct shape_ops) bs [n, dimn, r, r] = Inr [n, dimn, r, r]"
proof (rule foldE_fixed)
  fix b assume b: "b \<in> set bs"
  from build_stage_blocks [OF st b] obtain nm nh sh' dp dis sp where
    "Block_init nm dimn (r, r) nh ws sh' ratio (mlp_ratio c) (qkv_bias c) (qk_scale c)
       (drop_rate c) (attn_drop_rate c) dp (group c) dis sp = Inr b"
    by blast
  moreover have "blk_attn_disabled b \<or> to_2tuple (blk_window_size b) = blk_input_resolution b"
    using cover b by (simp add: list_all_iff)
  ultimately show "Block_construct shape_ops b [n, dimn, r, r] = Inr [n, dimn, r, r]"
    using n r by (rule Block_construct_shape)
qed

lemma PatchEmbed_construct_shape:
  assumes "PatchEmbed_init nm sz 2 cin cout wn = Inr pe" and "0 < h"
  shows "PatchEmbed_construct shape_ops pe [n, cin, 2 * h, 2 * h] = Inr [n, cout, h, h]"
  using assms
  by (auto simp: PatchEmbed_init_def Let_def to_2tuple_def ebind_eq_Inr layer_eq_Inr
      PatchEmbed_construct_def shape_conv2d_def shape_batch_norm_def split: if_splits)

lemma stage_construct_shape:
  assumes pe: "PatchEmbed_init nm sz 2 cin cout wn = Inr pe"
    and pos: "pos_embed_init (v_pos_embed m) pn [1, cout, h, h] = Inr pos"
    and st: "build_stage c heads dpr ds k cout h ws sh ratio = Inr bs"
    and cover: "list_all (\<lambda>b. blk_attn_disabled b \<or>
                  to_2tuple (blk_window_size b) = blk_input_resolution b) bs"
    and n: "0 < n" and h: "0 < h"
  shows "stage_construct shape_ops m pe pos bs [n, cin, 2 * h, 2 * h] = Inr [n, cout, h, h]"
proof -
  have a: "(if v_pos_embed m
            then (case pos of
                    None \<Rightarrow> Inl AttributeError
                  | Some p \<Rightarrow> ebind (t_add shape_ops [n, cout, h, h] (t_param shape_ops p)) (\<lambda>x.
                              Inr (t_dropout shape_ops (v_pos_drop m) x)))
            else Inr [n, cout, h, h]) = Inr [n, cout, h, h]"
    using pos
    by (auto simp: pos_embed_init_def ebind_eq_Inr zeros_eq_Inr broadcast_batch split: if_splits)
  show ?thesis
    unfolding stage_construct_def
    by (simp only: PatchEmbed_construct_shape [OF pe h] ebind_Inr a
        stage_blocks_shape [OF st cover n h])
qed

lemma build_stage_cover:
  assumes st: "build_stage c heads dpr ds k dimn r ws sh ratio = Inr bs" and le: "r \<le> ws"
  shows "list_all (\<lambda>b. blk_attn_disabled b \<or>
           to_2tuple (blk_window_size b) = blk_input_resolution b) bs"
  unfolding list_all_iff
proof
  fix b assume b: "b \<in> set bs"
  from build_stage_blocks [OF st b] obtain nm nh sh' dp dis sp where
    i: "Block_init nm dimn (r, r) nh ws sh' ratio (mlp_ratio c) (qkv_bias c) (qk_scale c)
       (drop_rate c) (attn_drop_rate c) dp (group c) dis sp = Inr b"
    by blast
  have "to_2tuple (blk_window_size b) = blk_input_resolution b"
    using le by (simp add: Block_init_Inr(3,4) [OF i] Block_window_def to_2tuple_def)
  then show "blk_attn_disabled b \<or> to_2tuple (blk_window_size b) = blk_input_resolution b" ..
qed

lemma stem_construct_shape:
  assumes "Conv2d nm 3 ic 7 2 3 1 False = Inr (v_stem_conv m)"
    and "BatchNorm nm' ic = Inr (v_stem_bn m)" and "0 < h"
  shows "stem_construct shape_ops m [n, 3, 2 * h, 2 * h] = Inr [n, ic, h, h]"
proof -
  have "(2 * h + 2 * 3 - 7) div 2 + 1 = h" by presburger
  then show ?thesis
    using assms
    by (auto simp: stem_construct_def layer_eq_Inr shape_conv2d_def shape_batch_norm_def)
qed

lemma head_construct_shape:
  assumes "BatchNorm nm d = Inr (v_norm m)" and "Dense nm' d k = Inr (v_head m)"
    and "0 < n" and "0 < h"
  shows "head_construct shape_ops m [n, d, h, h] = Inr [n, k]"
proof -
  from assms(1) have d: "0 < d" and nrm: "norm_features (v_norm m) = d"
    by (auto simp: BatchNorm_eq_Inr)
  from assms(2) have hd: "dense_in (v_head m) = d" "dense_out (v_head m) = k"
    by (auto simp: Dense_eq_Inr)
  have pool: "(if v_pool m then shape_avg_pool [n, d, h, h]
               else shape_corner [n, d, h, h]) = Inr [n, d]"
    using assms(4) by (simp add: shape_avg_pool_def shape_corner_def)
  have get: "py_get [n, d] 0 = Inr n"
    by (simp add: py_get_def)
  have view: "shape_reshape [n, d] [n, - 1] = Inr [n, d]"
    using shape_reshape_hole [of "[n]" "[]" "[n, d]" d] assms(3) by (simp add: numel_def)
  have dense: "shape_dense (v_head m) [n, d] = Inr [n, k]"
    by (simp add: shape_dense_def hd)
  have bn: "shape_batch_norm (v_norm m) [n, d, h, h] = Inr [n, d, h, h]"
    by (simp add: shape_batch_norm_def nrm)
  show ?thesis
    unfolding head_construct_def
    by (simp only: bn ebind_Inr pool shape_ops_simps get view dense)
qed

lemma windows_cover_stages:
  "windows_cover m \<longleftrightarrow>
     list_all (\<lambda>b. blk_attn_disabled b \<or> to_2tuple (blk_window_size b) = blk_input_resolution b) (v_stage0 m)
   \<and> list_all (\<lambda>b. blk_attn_disabled b \<or> to_2tuple (blk_window_size b) = blk_input_resolution b) (v_stage1 m)
   \<and> list_all (\<lambda>b. blk_attn_disabled b \<or> to_2tuple (blk_window_size b) = blk_input_resolution b) (v_stage2 m)
   \<and> list_all (\<lambda>b. blk_attn_disabled b \<or> to_2tuple (blk_window_size b) = blk_input_resolution b) (v_stage3 m)"
  by (simp add: windows_cover_def all_blocks_def)

text \<open>
  Claim C3, as amended. For a constructed Visformer whose \<open>img_size\<close> is positive and
  divisible by 32, and either at most 224 or such that the window of every block with
  attention is that block's input resolution, the forward pass on an input of shape
  \<open>(N, 3, img_size, img_size)\<close> with \<open>N \<ge> 1\<close> succeeds and gives logits of shape
  \<open>(N, num_classes)\<close>.
\<close>

theorem Visformer_forward_shape:
  assumes init: "Visformer_init c = Inr m"
    and size: "0 < img_size c" "img_size c mod 32 = 0"
    and batch: "0 < N"
    and cover: "img_size c \<le> 224 \<or> windows_cover m"
  shows "Visformer_construct shape_ops m [N, 3, img_size c, img_size c] = Inr [N, num_classes c]"
proof -
  from size obtain t where S: "img_size c = 32 * t" and t: "0 < t"
    by (auto simp: mod_eq_0_iff_dvd)
  define C where "C = embed_dim c"
  define heads where "heads = broadcast_heads (num_heads c)"
  from Visformer_init_Inr [OF init] obtain ds dpr where
    stem: "Conv2d [Attr ''stem'', Idx 0] 3 (init_channels c) 7 2 3 1 False = Inr (v_stem_conv m)"
      "BatchNorm [Attr ''stem'', Idx 1] (init_channels c) = Inr (v_stem_bn m)"
    and pe0: "PatchEmbed_init [Attr ''patch_embed0''] (16 * t) 2 (init_channels c) (C div 4)
           (embedding_norm c) = Inr (v_patch_embed0 m)"
    and pos0: "pos_embed_init (pos_embed c) [Attr ''pos_embed0''] [1, C div 4, 8 * t, 8 * t]
         = Inr (v_pos_embed0 m)"
    and st0: "build_stage c heads dpr ds 0 (C div 4) (8 * t) 56 28 0.25 = Inr (v_stage0 m)"
    and pe1: "PatchEmbed_init [Attr ''patch_embed1''] (8 * t) 2 (C div 4) (C div 2)
           (embedding_norm c) = Inr (v_patch_embed1 m)"
    and pos1: "pos_embed_init (pos_embed c) [Attr ''pos_embed1''] [1, C div 2, 4 * t, 4 * t]
         = Inr (v_pos_embed1 m)"
    and st1: "build_stage c heads dpr ds 1 (C div 2) (4 * t) 28 14 0.5 = Inr (v_stage1 m)"
    and pe2: "PatchEmbed_init [Attr ''patch_embed2''] (4 * t) 2 (C div 2) C
           (embedding_norm c) = Inr (v_patch_embed2 m)"
    and pos2: "pos_embed_init (pos_embed c) [Attr ''pos_embed2''] [1, C, 2 * t, 2 * t]
         = Inr (v_pos_embed2 m)"
    and st2: "build_stage c heads dpr ds 2 C (2 * t) 14 7 1.0 = Inr (v_stage2 m)"
    and pe3: "PatchEmbed_init [Attr ''patch_embed3''] (2 * t) 2 C (C * 2)
           (embedding_norm c) = Inr (v_patch_embed3 m)"
    and pos3: "pos_embed_init (pos_embed c) [Attr ''pos_embed3''] [1, C * 2, t, t]
         = Inr (v_pos_embed3 m)"
    and st3: "build_stage c heads dpr ds 3 (C * 2) t 7 3 1.0 = Inr (v_stage3 m)"
    and nrm: "BatchNorm [Attr ''norm''] (C * 2) = Inr (v_norm m)"
    and hd: "Dense [Attr ''head''] (C * 2) (num_classes c) = Inr (v_head m)"
    and pe: "v_pos_embed m = pos_embed c"
    unfolding S C_def heads_def by auto
  have cov: "windows_cover m"
    using cover
  proof
    assume "img_size c \<le> 224"
    then have "t \<le> 7" using S by simp
    then show ?thesis
      unfolding windows_cover_stages
      using build_stage_cover [OF st0] build_stage_cover [OF st1] build_stage_cover [OF st2]
        build_stage_cover [OF st3]
      by simp
  qed
  note cv = cov [unfolded windows_cover_stages]
  have t2: "0 < 2 * t" "0 < 4 * t" "0 < 8 * t" "0 < 16 * t" using t by simp_all
  have e: "32 * t = 2 * (16 * t)" "16 * t = 2 * (8 * t)" "8 * t = 2 * (4 * t)"
    "4 * t = 2 * (2 * t)" by simp_all
  have a0: "stem_construct shape_ops m [N, 3, 32 * t, 32 * t]
          = Inr [N, init_channels c, 16 * t, 16 * t]"
    unfolding e(1) by (rule stem_construct_shape [OF stem t2(4)])
  have a1: "stage_construct shape_ops m (v_patch_embed0 m) (v_pos_embed0 m) (v_stage0 m)
              [N, init_channels c, 16 * t, 16 * t] = Inr [N, C div 4, 8 * t, 8 * t]"
    unfolding e(2)
    by (rule stage_construct_shape [OF pe0 pos0 [folded pe] st0 conjunct1 [OF cv] batch t2(3)])
  have a2: "stage_construct shape_ops m (v_patch_embed1 m) (v_pos_embed1 m) (v_stage1 m)
              [N, C div 4, 8 * t, 8 * t] = Inr [N, C div 2, 4 * t, 4 * t]"
    unfolding e(3)
    by (rule stage_construct_shape [OF pe1 pos1 [folded pe] st1 conjunct1 [OF conjunct2 [OF cv]]
          batch t2(2)])
  have a3: "stage_construct shape_ops m (v_patch_embed2 m) (v_pos_embed2 m) (v_stage2 m)
              [N, C div 2, 4 * t, 4 * t] = Inr [N, C, 2 * t, 2 * t]"
    unfolding e(4)
    by (rule stage_construct_shape [OF pe2 pos2 [folded pe] st2
          conjunct1 [OF conjunct2 [OF conjunct2 [OF cv]]] batch t2(1)])
  have a4: "stage_construct shape_ops m (v_patch_embed3 m) (v_pos_embed3 m) (v_stage3 m)
              [N, C, 2 * t, 2 * t] = Inr [N, C * 2, t, t]"
    by (rule stage_construct_shape [OF pe3 pos3 [folded pe] st3
          conjunct2 [OF conjunct2 [OF conjunct2 [OF cv]]] batch t])
  have a5: "head_construct shape_ops m [N, C * 2, t, t] = Inr [N, num_classes c]"
    by (rule head_construct_shape [OF nrm hd batch t])
  show ?thesis
    unfolding Visformer_construct_def Visformer_features_def S
    by (simp only: a0 a1 a2 a3 a4 a5 ebind_Inr)
qed


lemmas init_defs = Visformer_init_def drop_path_schedule_def linspace_def arange_def
  broadcast_heads_def build_stage_def stage_block_def py_range_def py_get_def
  pos_embed_init_def PatchEmbed_init_def Block_init_def Block_window_def
  WindowAttention_init_def Mlp_init_def Mlp_hidden_def py_or_def py_int_def py_pow_def
  qk_scale_factor_def to_2tuple_def Let_def Conv2d_def Dropout_def BatchNorm_def Dense_def
  zeros_def upto_rec1 upt_conv_Cons

lemmas forward_defs = Visformer_construct_def Visformer_features_def stem_construct_def
  stage_construct_def head_construct_def PatchEmbed_construct_def Block_construct_def
  attn_branch_def mlp_branch_def Mlp_construct_def WindowAttention_construct_def
  attn_logits_def shape_conv2d_def shape_batch_norm_def shape_dense_def shape_avg_pool_def
  shape_corner_def shape_matmul_def shape_reshape_def shape_transpose_def shape_item_def
  shape_gather_def shape_expand_dims_def broadcast_def numel_def

lemma tiny_init: "\<exists>m. Visformer_init visformer_tiny = Inr m"
  by (simp add: visformer_tiny_def default_config_def init_defs)

theorem Visformer_forward_shape_witness:
  "0 < img_size visformer_tiny \<and> img_size visformer_tiny mod 32 = 0 \<and> (0::int) < 1
   \<and> img_size visformer_tiny \<le> 224
   \<and> (\<exists>m. Visformer_init visformer_tiny = Inr m
          \<and> Visformer_construct shape_ops m [1, 3, 224, 224] = Inr [1, 1000])"
proof -
  obtain m where m: "Visformer_init visformer_tiny = Inr m"
    using tiny_init by blast
  have c: "img_size visformer_tiny = 224" "num_classes visformer_tiny = 1000"
    by (simp_all add: visformer_tiny_def default_config_def)
  from Visformer_forward_shape [OF m, of 1] m show ?thesis
    by (simp add: c)
qed

text \<open>
  The claim as stated fails for the tiny preset at \<open>img_size = 448\<close>, which is divisible by
  32: construction succeeds, and the forward pass stops in the first block of stage 2,
  whose attention holds a bias for a window of 14 by 14 positions and meets a feature map
  of 28 by 28.
\<close>

theorem Visformer_forward_shape_counterexample:
  "img_size (visformer_tiny\<lparr>img_size := 448\<rparr>) mod 32 = 0
   \<and> map_sum id (\<lambda>m. Visformer_construct shape_ops m [1, 3, 448, 448])
        (Visformer_init (visformer_tiny\<lparr>img_size := 448\<rparr>)) = Inr (Inl ValueError)"
  using relative_position_index_in_range [of 14 14] length_concat_relative_position_index [of 14 14]
    relative_position_index_in_range [of 7 7] length_concat_relative_position_index [of 7 7]
  by (simp add: visformer_tiny_def default_config_def init_defs forward_defs)


section \<open>The head and the configuration\<close>

text \<open>
  Claim C9. A constructed Visformer stores the pool flag of its configuration. With the
  pool disabled the head normalises the features, takes the top-left position
  \<^verbatim>\<open>x[:, :, 0, 0]\<close> of the normalised map, flattens and applies the classifier, with no
  average pool; with the pool enabled it takes the global average pool instead.
\<close>

theorem Visformer_head_spec:
  assumes "Visformer_init c = Inr m"
  shows "v_pool m = pool c
       \<and> (\<not> pool c \<longrightarrow>
            Visformer_construct P m x =
              ebind (Visformer_features P m x) (\<lambda>f.
              ebind (t_batch_norm P (v_norm m) f) (\<lambda>y.
              ebind (t_corner P y) (\<lambda>z.
              ebind (py_get (t_shape P z) 0) (\<lambda>n.
              ebind (t_reshape P z [n, - 1]) (\<lambda>z.
              t_dense P (v_head m) z))))))
       \<and> (pool c \<longrightarrow>
            Visformer_construct P m x =
              ebind (Visformer_features P m x) (\<lambda>f.
              ebind (t_batch_norm P (v_norm m) f) (\<lambda>y.
              ebind (t_avg_pool P y) (\<lambda>z.
              ebind (py_get (t_shape P z) 0) (\<lambda>n.
              ebind (t_reshape P z [n, - 1]) (\<lambda>z.
              t_dense P (v_head m) z))))))"
proof -
  from Visformer_init_Inr [OF assms] have p: "v_pool m = pool c" by blast
  show ?thesis
    unfolding Visformer_construct_def
    by (cases "Visformer_features P m x") (simp_all add: head_construct_def p)
qed

lemma tiny_no_pool_init: "\<exists>m. Visformer_init (visformer_tiny\<lparr>pool := False\<rparr>) = Inr m"
  by (simp add: visformer_tiny_def default_config_def init_defs)

theorem Visformer_head_spec_witness:
  "\<exists>m. Visformer_init (visformer_tiny\<lparr>pool := False\<rparr>) = Inr m \<and> \<not> v_pool m
     \<and> Visformer_construct shape_ops m [1, 3, 224, 224] =
              ebind (Visformer_features shape_ops m [1, 3, 224, 224]) (\<lambda>f.
              ebind (t_batch_norm shape_ops (v_norm m) f) (\<lambda>y.
              ebind (t_corner shape_ops y) (\<lambda>z.
              ebind (py_get (t_shape shape_ops z) 0) (\<lambda>n.
              ebind (t_reshape shape_ops z [n, - 1]) (\<lambda>z.
              t_dense shape_ops (v_head m) z)))))"
proof -
  obtain m where m: "Visformer_init (visformer_tiny\<lparr>pool := False\<rparr>) = Inr m"
    using tiny_no_pool_init by blast
  from Visformer_head_spec [OF m, of shape_ops "[1, 3, 224, 224]"] m show ?thesis
    by (simp del: shape_ops_simps)
qed

lemma py_get_nonneg:
  "py_get xs k = Inr a \<Longrightarrow> 0 \<le> k \<Longrightarrow> nat k < length xs \<and> a = xs ! nat k"
  by (auto simp: py_get_def split: if_splits)

lemma build_stage_flags:
  assumes st: "build_stage c heads dpr ds k dimn r ws sh ratio = Inr bs"
    and b: "b \<in> set bs" and k: "0 \<le> k"
  shows "nat k < length (attn_stage c) \<and> nat k < length (spatial_conv c)
       \<and> blk_attn_disabled b = (attn_stage c ! nat k = CHR ''0'')
       \<and> blk_spatial_conv b = (spatial_conv c ! nat k = CHR ''1'')"
proof -
  from mapE_Inr_set [OF st [unfolded build_stage_def Let_def] b]
  obtain i where "stage_block c heads dpr k dimn r ws sh ratio (sum_list (take (nat k) ds)) i = Inr b"
    by blast
  then obtain nh dp a s where
    a: "py_get (attn_stage c) k = Inr a" and s: "py_get (spatial_conv c) k = Inr s"
    and i: "Block_init [Attr ''stage'', Idx k, Idx (i - sum_list (take (nat k) ds))] dimn (r, r) nh ws
       (if i mod 2 = 0 then 0 else sh) ratio (mlp_ratio c) (qkv_bias c) (qk_scale c)
       (drop_rate c) (attn_drop_rate c) dp (group c) (a = CHR ''0'') (s = CHR ''1'') = Inr b"
    unfolding stage_block_def ebind_eq_Inr by blast
  show ?thesis
    using py_get_nonneg [OF a k] py_get_nonneg [OF s k] Block_init_Inr(1,2) [OF i] by simp
qed

lemma Visformer_init_flags:
  assumes "Visformer_init c = Inr m" and "k < 4" and "b \<in> set (stages m ! k)"
  shows "k < length (attn_stage c) \<and> k < length (spatial_conv c)
       \<and> blk_attn_disabled b = (attn_stage c ! k = CHR ''0'')
       \<and> blk_spatial_conv b = (spatial_conv c ! k = CHR ''1'')"
proof -
  from Visformer_init_Inr [OF assms(1)] obtain ds dpr where
    st: "build_stage c (broadcast_heads (num_heads c)) dpr ds 0 (embed_dim c div 4)
           (img_size c div 2 div 2) 56 28 0.25 = Inr (v_stage0 m)"
      "build_stage c (broadcast_heads (num_heads c)) dpr ds 1 (embed_dim c div 2)
           (img_size c div 2 div 2 div 2) 28 14 0.5 = Inr (v_stage1 m)"
      "build_stage c (broadcast_heads (num_heads c)) dpr ds 2 (embed_dim c)
           (img_size c div 2 div 2 div 2 div 2) 14 7 1.0 = Inr (v_stage2 m)"
      "build_stage c (broadcast_heads (num_heads c)) dpr ds 3 (embed_dim c * 2)
           (img_size c div 2 div 2 div 2 div 2 div 2) 7 3 1.0 = Inr (v_stage3 m)"
    by blast
  from assms(2) consider "k = 0" | "k = 1" | "k = 2" | "k = 3" by linarith
  then show ?thesis
  proof cases
    case 1
    with assms(3) build_stage_flags [OF st(1), of b] show ?thesis by (simp add: stages_def)
  next
    case 2
    with assms(3) build_stage_flags [OF st(2), of b] show ?thesis by (simp add: stages_def)
  next
    case 3
    with assms(3) build_stage_flags [OF st(3), of b] show ?thesis by (simp add: stages_def)
  next
    case 4
    with assms(3) build_stage_flags [OF st(4), of b] show ?thesis by (simp add: stages_def)
  qed
qed

lemma Visformer_init_depth:
  "depth c = None \<or> (\<exists>ds. depth c = Some ds \<and> length ds \<noteq> 4) \<Longrightarrow>
   Visformer_init c = Inl AssertionError"
  by (auto simp: Visformer_init_def)

lemma Visformer_init_scalar_heads:
  "Visformer_init (c\<lparr>num_heads := HeadsScalar h\<rparr>)
   = Visformer_init (c\<lparr>num_heads := HeadsSeq [h, h, h, h]\<rparr>)"
proof -
  have b: "broadcast_heads (HeadsScalar h) = broadcast_heads (HeadsSeq [h, h, h, h])"
    by (simp add: broadcast_heads_def numeral_eq_Suc)
  have s: "stage_block (c\<lparr>num_heads := X\<rparr>) = stage_block c" for X
    by (intro ext) (simp add: stage_block_def)
  show ?thesis
    unfolding Visformer_init_def build_stage_def
    by (cases "depth c") (simp_all add: b s Let_def)
qed

text \<open>
  Claim C8, as amended. Construction raises \<open>AssertionError\<close> whenever \<open>depth\<close> is not a
  list or tuple of length 4. A scalar \<open>num_heads\<close> is broadcast: construction with the
  scalar \<open>h\<close> is construction with \<open>[h, h, h, h]\<close>. The stage flags are not validated:
  whenever construction succeeds, the blocks of stage \<open>k\<close> have attention disabled exactly
  when \<open>attn_stage[k]\<close> is the character 0, and the spatial convolution exactly when
  \<open>spatial_conv[k]\<close> is the character 1, whatever else the strings hold.
\<close>

theorem Visformer_init_config_errors:
  "(depth c = None \<or> (\<exists>ds. depth c = Some ds \<and> length ds \<noteq> 4)
      \<longrightarrow> Visformer_init c = Inl AssertionError)
   \<and> Visformer_init (c\<lparr>num_heads := HeadsScalar h\<rparr>)
     = Visformer_init (c\<lparr>num_heads := HeadsSeq [h, h, h, h]\<rparr>)
   \<and> (\<forall>m k b. Visformer_init c = Inr m \<longrightarrow> k < 4 \<longrightarrow> b \<in> set (stages m ! k) \<longrightarrow>
          k < length (attn_stage c) \<and> k < length (spatial_conv c)
        \<and> blk_attn_disabled b = (attn_stage c ! k = CHR ''0'')
        \<and> blk_spatial_conv b = (spatial_conv c ! k = CHR ''1''))"
proof (intro conjI allI impI)
  assume "depth c = None \<or> (\<exists>ds. depth c = Some ds \<and> length ds \<noteq> 4)"
  then show "Visformer_init c = Inl AssertionError"
    by (rule Visformer_init_depth)
next
  show "Visformer_init (c\<lparr>num_heads := HeadsScalar h\<rparr>)
     = Visformer_init (c\<lparr>num_heads := HeadsSeq [h, h, h, h]\<rparr>)"
    by (rule Visformer_init_scalar_heads)
next
  fix m k b
  assume *: "Visformer_init c = Inr m" "k < 4" "b \<in> set (stages m ! k)"
  note F = Visformer_init_flags [OF *]
  from F show "k < length (attn_stage c)" by simp
  from F show "k < length (spatial_conv c)" by simp
  from F show "blk_attn_disabled b = (attn_stage c ! k = CHR ''0'')" by simp
  from F show "blk_spatial_conv b = (spatial_conv c ! k = CHR ''1'')" by simp
qed

lemma tiny_scalar_init: "visformer_tiny\<lparr>num_heads := HeadsSeq [3, 3, 3, 3]\<rparr> = visformer_tiny"
  by (simp add: visformer_tiny_def)

theorem Visformer_init_config_errors_witness:
  "Visformer_init (visformer_tiny\<lparr>depth := None\<rparr>) = Inl AssertionError
   \<and> Visformer_init (visformer_tiny\<lparr>depth := Some [0, 7, 4]\<rparr>) = Inl AssertionError
   \<and> (\<exists>m. Visformer_init (visformer_tiny\<lparr>num_heads := HeadsScalar 3\<rparr>) = Inr m)
   \<and> (\<exists>m. Visformer_init visformer_tiny = Inr m
          \<and> list_all (\<lambda>b. \<not> blk_attn_disabled b \<and> \<not> blk_spatial_conv b) (v_stage2 m))"
proof -
  obtain m where m: "Visformer_init visformer_tiny = Inr m"
    using tiny_init by blast
  have a: "Visformer_init (visformer_tiny\<lparr>depth := None\<rparr>) = Inl AssertionError"
    using Visformer_init_config_errors [where c = "visformer_tiny\<lparr>depth := None\<rparr>"] by simp
  have b: "Visformer_init (visformer_tiny\<lparr>depth := Some [0, 7, 4]\<rparr>) = Inl AssertionError"
    using Visformer_init_config_errors [where c = "visformer_tiny\<lparr>depth := Some [0, 7, 4]\<rparr>"] by simp
  have c: "Visformer_init (visformer_tiny\<lparr>num_heads := HeadsScalar 3\<rparr>) = Inr m"
    using Visformer_init_config_errors [where c = visformer_tiny and h = 3] m
    by (simp add: tiny_scalar_init)
  have f: "attn_stage visformer_tiny ! 2 = CHR ''1''" "spatial_conv visformer_tiny ! 2 = CHR ''0''"
    by (simp_all add: visformer_tiny_def default_config_def)
  have "\<not> blk_attn_disabled b \<and> \<not> blk_spatial_conv b" if "b \<in> set (v_stage2 m)" for b
  proof -
    note F = conjunct2 [OF conjunct2
        [OF Visformer_init_config_errors [where c = visformer_tiny and h = 3]]]
    have mem: "b \<in> set (stages m ! 2)" using that by (simp add: stages_def)
    have lt: "(2::nat) < 4" by simp
    from F [rule_format, OF m lt mem] f show ?thesis by simp
  qed
  then have "list_all (\<lambda>b. \<not> blk_attn_disabled b \<and> \<not> blk_spatial_conv b) (v_stage2 m)"
    by (simp add: list_all_iff)
  with a b c m show ?thesis by blast
qed

text \<open>
  The claim as stated fails for the malformed flag string \<open>abcd\<close>: the tiny preset with
  it constructs, every stage with attention enabled.
\<close>

theorem Visformer_init_config_errors_counterexample:
  "map_sum id (\<lambda>m. map blk_attn_disabled (v_stage2 m))
     (Visformer_init (visformer_tiny\<lparr>attn_stage := ''abcd''\<rparr>))
   = Inr [False, False, False, False]"
  by (simp add: visformer_tiny_def default_config_def init_defs)



end
